theory Spec2Isabelle
  imports Complex_Main
begin

section \<open>JavaScript strings\<close>

text \<open>
  A JavaScript string is a sequence of UTF-16 code units. It is modelled as a
  \<^typ>\<open>string\<close>, one \<^typ>\<open>char\<close> per code unit (the code units below 256), so
  that \<^term>\<open>length\<close> is the \<open>length\<close> property and positions are the ones
  \<open>substring\<close> counts.
\<close>

definition newline :: string where
  "newline = [CHR 0x0A]"

text \<open>
  \<open>String.prototype.substring(start, end)\<close>: an argument below 0 counts as 0, one
  above the length counts as the length, and the two are swapped when the first is the
  larger one.
\<close>

definition clamp_index :: "nat \<Rightarrow> int \<Rightarrow> nat" where
  "clamp_index n i = (if i < 0 then 0 else if int n < i then n else nat i)"

definition substring :: "string \<Rightarrow> int \<Rightarrow> int \<Rightarrow> string" where
  "substring s start stop =
     (let a = clamp_index (length s) start;
          b = clamp_index (length s) stop
      in take (max a b - min a b) (drop (min a b) s))"

text \<open>\<open>s.substring(start)\<close>: the end defaults to the length of the string.\<close>

definition substring_from :: "string \<Rightarrow> int \<Rightarrow> string" where
  "substring_from s start = substring s start (int (length s))"

text \<open>\<open>s.slice(-n)\<close> for a positive \<open>n\<close>: the last \<open>n\<close> code units, the whole string
  when it is shorter.\<close>

definition slice_last :: "string \<Rightarrow> nat \<Rightarrow> string" where
  "slice_last s n = drop (length s - n) s"

text \<open>The decimal numeral a template literal prints for an index or a count, built
  from the last digit backwards.\<close>

definition digit_char :: "nat \<Rightarrow> char" where
  "digit_char d = ''0123456789'' ! d"

fun decimal_onto :: "nat \<Rightarrow> string \<Rightarrow> string" where
  "decimal_onto n acc =
     (if n < 10 then digit_char n # acc
      else decimal_onto (n div 10) (digit_char (n mod 10) # acc))"

declare decimal_onto.simps [simp del]

definition decimal :: "nat \<Rightarrow> string" where
  "decimal n = decimal_onto n []"

text \<open>The same for an integer; \<open>-0\<close> prints as \<open>0\<close>.\<close>

definition decimal_int :: "int \<Rightarrow> string" where
  "decimal_int i = (if 0 \<le> i then decimal (nat i) else CHR ''-'' # decimal (nat (- i)))"

text \<open>
  \<open>String.prototype.trim\<close> removes white space and line terminators from both ends.
  Of the code units below 256 these are tab, line feed, vertical tab, form feed,
  carriage return, space and the no-break space.
\<close>

definition js_whitespace :: "char \<Rightarrow> bool" where
  "js_whitespace c = (c \<in> set [CHR 0x09, CHR 0x0A, CHR 0x0B, CHR 0x0C, CHR 0x0D, CHR 0x20, CHR 0xA0])"

definition trim :: "string \<Rightarrow> string" where
  "trim s = rev (dropWhile js_whitespace (rev (dropWhile js_whitespace s)))"

section \<open>The masked form of a secret (ui.js, formatStatusContent)\<close>

text \<open>
  Both the token loop and the key loop of \<open>formatStatusContent\<close> build
  \<open>`${token.substring(0, 5)}...${token.substring(token.length - 4)}`\<close>.
\<close>

definition masked :: "string \<Rightarrow> string" where
  "masked token = substring token 0 5 @ ''...'' @ substring_from token (int (length token) - 4)"

section \<open>JavaScript values\<close>

text \<open>
  The values the code handles dynamically: parsed JSON response bodies, the request
  payloads the client builds, and the arguments of \<open>console.error\<close>. An array is
  \<open>Arr items props\<close>: its elements and the named properties assigned to it later
  (none after \<open>JSON.parse\<close>). An object is the list of its own properties in
  enumeration order. A number is a rational: JSON has no \<open>NaN\<close>, and rounding to
  a double is not modelled.
\<close>

datatype jsval =
    Undefined
  | Null
  | Bool bool
  | Num rat
  | Str string
  | Arr "jsval list" "(string \<times> jsval) list"
  | Obj "(string \<times> jsval) list"

text \<open>An axios response, as far as the client reads it.\<close>

record response =
  status :: int
  data :: jsval

text \<open>
  What a \<open>catch\<close> clause can receive: the error axios rejects with (with the
  response when the server answered, without it on a transport failure) or the
  \<open>TypeError\<close> of a property read on \<open>null\<close> or \<open>undefined\<close>, of a call of
  something that is no function, and of a conversion to a primitive that finds no
  method to call. Both carry a \<open>message\<close>.
\<close>

datatype js_error =
    AxiosError "response option" string
  | TypeError string

datatype 'a outcome = Returned 'a | Thrown js_error

text \<open>Truthiness, as \<open>if (x)\<close>, \<open>x && y\<close>, \<open>x || y\<close> and \<open>x ? y : z\<close> test it.\<close>

fun truthy :: "jsval \<Rightarrow> bool" where
  "truthy Undefined = False"
| "truthy Null = False"
| "truthy (Bool b) = b"
| "truthy (Num r) = (r \<noteq> 0)"
| "truthy (Str s) = (s \<noteq> [])"
| "truthy (Arr xs ps) = True"
| "truthy (Obj ps) = True"

definition js_or :: "jsval \<Rightarrow> jsval \<Rightarrow> jsval" where
  "js_or a b = (if truthy a then a else b)"

text \<open>
  Reading an own property. On \<open>null\<close> and \<open>undefined\<close> the read throws, with
  the message Node gives it (the property name between single quotes). A string
  has its \<open>length\<close> and its code units by index, an array its \<open>length\<close>, its
  elements by index and its named properties. None of the names this program reads
  (\<open>candidates\<close>, \<open>content\<close>, \<open>parts\<close>, \<open>text\<close>, \<open>promptFeedback\<close>, \<open>blockReason\<close>,
  \<open>guild_id\<close>, \<open>name\<close>, \<open>retry_after\<close>) is inherited from a prototype.
\<close>

definition squoted :: "string \<Rightarrow> string" where
  "squoted k = [CHR 0x27] @ k @ [CHR 0x27]"

definition index_of_key :: "nat \<Rightarrow> string \<Rightarrow> nat option" where
  "index_of_key n k = find (\<lambda>i. decimal i = k) [0..<n]"

fun get_prop :: "jsval \<Rightarrow> string \<Rightarrow> jsval outcome" where
  "get_prop Undefined k =
     Thrown (TypeError (''Cannot read properties of undefined (reading '' @ squoted k @ '')''))"
| "get_prop Null k =
     Thrown (TypeError (''Cannot read properties of null (reading '' @ squoted k @ '')''))"
| "get_prop (Bool b) k = Returned Undefined"
| "get_prop (Num r) k = Returned Undefined"
| "get_prop (Str s) k =
     (if k = ''length'' then Returned (Num (of_nat (length s)))
      else case index_of_key (length s) k of
             Some i \<Rightarrow> Returned (Str [s ! i])
           | None \<Rightarrow> Returned Undefined)"
| "get_prop (Arr xs ps) k =
     (if k = ''length'' then Returned (Num (of_nat (length xs)))
      else case index_of_key (length xs) k of
             Some i \<Rightarrow> Returned (xs ! i)
           | None \<Rightarrow> (case map_of ps k of Some v \<Rightarrow> Returned v | None \<Rightarrow> Returned Undefined))"
| "get_prop (Obj ps) k = (case map_of ps k of Some v \<Rightarrow> Returned v | None \<Rightarrow> Returned Undefined)"

text \<open>Optional chaining \<open>x?.k\<close>: \<open>undefined\<close> when \<open>x\<close> is \<open>null\<close> or \<open>undefined\<close>.\<close>

fun opt_prop :: "jsval \<Rightarrow> string \<Rightarrow> jsval" where
  "opt_prop Undefined k = Undefined"
| "opt_prop Null k = Undefined"
| "opt_prop v k = (case get_prop v k of Returned w \<Rightarrow> w | Thrown e \<Rightarrow> Undefined)"

text \<open>
  Assigning a named property, \<open>x.k = v\<close>; the value returned is \<open>x\<close> after the
  assignment. An existing property keeps its place, a new one is added last. The module
  is not in strict mode, so the assignment to a primitive is dropped silently; on
  \<open>null\<close> and \<open>undefined\<close> it throws.
\<close>

fun put_field :: "string \<Rightarrow> jsval \<Rightarrow> (string \<times> jsval) list \<Rightarrow> (string \<times> jsval) list" where
  "put_field k v [] = [(k, v)]"
| "put_field k v (p # ps) = (if fst p = k then (k, v) # ps else p # put_field k v ps)"

fun set_prop :: "jsval \<Rightarrow> string \<Rightarrow> jsval \<Rightarrow> jsval outcome" where
  "set_prop Undefined k v =
     Thrown (TypeError (''Cannot set properties of undefined (setting '' @ squoted k @ '')''))"
| "set_prop Null k v =
     Thrown (TypeError (''Cannot set properties of null (setting '' @ squoted k @ '')''))"
| "set_prop (Obj ps) k v = Returned (Obj (put_field k v ps))"
| "set_prop (Arr xs ps) k v = Returned (Arr xs (put_field k v ps))"
| "set_prop x k v = Returned x"

text \<open>
  Two conversions of a dynamic value occur in the client: the text a template literal
  prints for it (\<open>ToString\<close>) and the comparison \<open>x > 0\<close>. On a primitive neither
  can throw. What they do with a number (printing a double) and with a string (reading
  it as a number) is left to the JavaScript engine, as two total functions (\<open>engine\<close>):
  these steps never throw.

  On an object or an array both go through \<open>OrdinaryToPrimitive\<close>, which calls the
  \<open>toString\<close> and \<open>valueOf\<close> methods it finds. A value parsed from JSON holds no
  function, so an own property \<open>toString\<close> hides the inherited method;
  \<open>Object.prototype.valueOf\<close> (or an own \<open>valueOf\<close>, which is skipped) gives no
  primitive, and the conversion throws a \<open>TypeError\<close>. Without that own property an
  object prints as \<open>[object Object]\<close>, which is no number, and an array prints its
  elements joined by commas (\<open>null\<close> and \<open>undefined\<close> as nothing), or as
  \<open>[object Array]\<close> when an own \<open>join\<close> hides the method.
\<close>

record engine =
  to_text :: "rat \<Rightarrow> string"
  gt_zero :: "string \<Rightarrow> bool"

definition not_primitive :: js_error where
  "not_primitive = TypeError ''Cannot convert object to primitive value''"

text \<open>\<open>Array.prototype.join\<close> on the texts of the elements; the first conversion
  that throws ends it.\<close>

fun join_texts :: "string outcome list \<Rightarrow> string outcome" where
  "join_texts [] = Returned []"
| "join_texts [t] = t"
| "join_texts (t # ts) =
     (case t of
        Thrown e \<Rightarrow> Thrown e
      | Returned a \<Rightarrow>
          (case join_texts ts of
             Thrown e \<Rightarrow> Thrown e
           | Returned b \<Rightarrow> Returned (a @ '','' @ b)))"

fun js_to_text :: "engine \<Rightarrow> jsval \<Rightarrow> string outcome" where
  "js_to_text eng (Str s) = Returned s"
| "js_to_text eng Undefined = Returned ''undefined''"
| "js_to_text eng Null = Returned ''null''"
| "js_to_text eng (Bool b) = Returned (if b then ''true'' else ''false'')"
| "js_to_text eng (Num r) = Returned (to_text eng r)"
| "js_to_text eng (Obj ps) =
     (if ''toString'' \<in> fst ` set ps then Thrown not_primitive
      else Returned ''[object Object]'')"
| "js_to_text eng (Arr xs ps) =
     (if ''toString'' \<in> fst ` set ps then Thrown not_primitive
      else if ''join'' \<in> fst ` set ps then Returned ''[object Array]''
      else join_texts
             (map (\<lambda>x. case x of
                          Undefined \<Rightarrow> Returned []
                        | Null \<Rightarrow> Returned []
                        | _ \<Rightarrow> js_to_text eng x) xs))"

fun js_gt_zero :: "engine \<Rightarrow> jsval \<Rightarrow> bool outcome" where
  "js_gt_zero eng (Num r) = Returned (0 < r)"
| "js_gt_zero eng Undefined = Returned False"
| "js_gt_zero eng Null = Returned False"
| "js_gt_zero eng (Bool b) = Returned b"
| "js_gt_zero eng (Str s) = Returned (gt_zero eng s)"
| "js_gt_zero eng (Obj ps) =
     (if ''toString'' \<in> fst ` set ps then Thrown not_primitive else Returned False)"
| "js_gt_zero eng (Arr xs ps) =
     (case js_to_text eng (Arr xs ps) of
        Thrown e \<Rightarrow> Thrown e
      | Returned s \<Rightarrow> Returned (gt_zero eng s))"

text \<open>\<open>response.data.candidates[0].content.parts[0].text.trim()\<close>, the one method
  call on a dynamic value: only a string has the method.\<close>

fun call_trim :: "jsval \<Rightarrow> jsval outcome" where
  "call_trim (Str s) = Returned (Str (trim s))"
| "call_trim Undefined =
     Thrown (TypeError (''Cannot read properties of undefined (reading '' @ squoted ''trim'' @ '')''))"
| "call_trim Null =
     Thrown (TypeError (''Cannot read properties of null (reading '' @ squoted ''trim'' @ '')''))"
| "call_trim v =
     Thrown (TypeError ''response.data.candidates[0].content.parts[0].text.trim is not a function'')"

section \<open>Effects: requests sent and console output\<close>

datatype http_verb = GET | POST | DELETE

record request =
  req_verb :: http_verb
  req_url :: string
  req_headers :: "(string \<times> string) list"
  req_body :: "jsval option"

datatype http_result = Resolved response | Rejected js_error

text \<open>The network as the client sees it: what axios answers to a request.\<close>

type_synonym axios = "request \<Rightarrow> http_result"

datatype console_level = ConsoleError | ConsoleWarn

datatype event =
    Sent request
  | Console console_level string "jsval list"

text \<open>
  An \<open>async\<close> function's run: how its promise settles (\<open>Returned\<close>: fulfilled,
  \<open>Thrown\<close>: rejected) and what it did on the way, in order.
\<close>

type_synonym 'a io = "'a outcome \<times> event list"

definition io_return :: "'a \<Rightarrow> 'a io" where
  "io_return v = (Returned v, [])"

definition io_of :: "'a outcome \<Rightarrow> 'a io" where
  "io_of r = (r, [])"

definition io_emit :: "event \<Rightarrow> unit io" where
  "io_emit ev = (Returned (), [ev])"

definition obind :: "'a outcome \<Rightarrow> ('a \<Rightarrow> 'b outcome) \<Rightarrow> 'b outcome" where
  "obind m f = (case m of Thrown e \<Rightarrow> Thrown e | Returned v \<Rightarrow> f v)"

definition io_bind :: "'a io \<Rightarrow> ('a \<Rightarrow> 'b io) \<Rightarrow> 'b io" where
  "io_bind m f =
     (case m of
        (Thrown e, tr) \<Rightarrow> (Thrown e, tr)
      | (Returned v, tr) \<Rightarrow> (case f v of (r, tr') \<Rightarrow> (r, tr @ tr')))"

text \<open>\<open>try { body } catch (error) { handler }\<close>.\<close>

definition try_catch :: "'a io \<Rightarrow> (js_error \<Rightarrow> 'a io) \<Rightarrow> 'a io" where
  "try_catch body handler =
     (case body of
        (Returned v, tr) \<Rightarrow> (Returned v, tr)
      | (Thrown e, tr) \<Rightarrow> (case handler e of (r, tr') \<Rightarrow> (r, tr @ tr')))"

text \<open>\<open>await axios.get(url, { headers })\<close> and its siblings.\<close>

definition await_axios :: "axios \<Rightarrow> request \<Rightarrow> response io" where
  "await_axios axios req =
     (case axios req of
        Resolved resp \<Rightarrow> (Returned resp, [Sent req])
      | Rejected err \<Rightarrow> (Thrown err, [Sent req]))"

text \<open>The fields of the caught error that the handlers read.\<close>

fun error_response :: "js_error \<Rightarrow> response option" where
  "error_response (AxiosError r m) = r"
| "error_response (TypeError m) = None"

fun error_message :: "js_error \<Rightarrow> string" where
  "error_message (AxiosError r m) = m"
| "error_message (TypeError m) = m"

text \<open>\<open>error.response?.data || error.message\<close>, the second argument of every
  \<open>console.error\<close> of the client.\<close>

definition error_detail :: "js_error \<Rightarrow> jsval" where
  "error_detail err =
     js_or (case error_response err of Some r \<Rightarrow> data r | None \<Rightarrow> Undefined)
           (Str (error_message err))"

section \<open>The API client (apiClient.js)\<close>

definition DISCORD_API_BASE :: string where
  "DISCORD_API_BASE = ''https://discord.com/api/v9''"

definition GOOGLE_API_BASE :: string where
  "GOOGLE_API_BASE =
     ''https://generativelanguage.googleapis.com/v1beta/models/gemini-1.5-flash-latest:generateContent''"

definition createDiscordHeaders :: "string \<Rightarrow> (string \<times> string) list" where
  "createDiscordHeaders token =
     [(''Authorization'', token),
      (''Content-Type'', ''application/json''),
      (''User-Agent'', ''DiscordBot (Node.js, 1.0)'')]"

definition createGoogleHeaders :: "(string \<times> string) list" where
  "createGoogleHeaders = [(''Content-Type'', ''application/json'')]"

text \<open>
  Every function below takes the network (\<open>axios\<close>) as its first argument; the ones
  that print a dynamic value or compare one with 0 take the \<open>engine\<close> too. The other
  arguments are the source's, strings as its documentation types them; an optional
  argument is an \<open>option\<close>, \<open>None\<close> when it is omitted (or \<open>null\<close> where the source
  treats both alike).
\<close>

definition fetchMessages :: "axios \<Rightarrow> string \<Rightarrow> string \<Rightarrow> jsval io" where
  "fetchMessages axios channelId token =
     (let url = DISCORD_API_BASE @ ''/channels/'' @ channelId @ ''/messages?limit=5'';
          headers = createDiscordHeaders token
      in try_catch
           (io_bind (await_axios axios
                       \<lparr>req_verb = GET, req_url = url, req_headers = headers, req_body = None\<rparr>)
              (\<lambda>response. io_return (data response)))
           (\<lambda>err.
              io_bind (io_emit (Console ConsoleError
                         (''[API Error] Failed to fetch messages for channel '' @ channelId @ '':'')
                         [error_detail err]))
                (\<lambda>_. io_return Null)))"

text \<open>The payload \<open>sendMessage\<close> posts: \<open>{ content }\<close>, and \<open>message_reference\<close>
  added under \<open>if (replyToMessageId)\<close>.\<close>

definition send_payload :: "string \<Rightarrow> string option \<Rightarrow> jsval" where
  "send_payload content replyToMessageId =
     (let payload = [(''content'', Str content)]
      in case replyToMessageId of
           None \<Rightarrow> Obj payload
         | Some r \<Rightarrow>
             if truthy (Str r)
             then Obj (put_field ''message_reference'' (Obj [(''message_id'', Str r)]) payload)
             else Obj payload)"

text \<open>\<open>error.response?.data?.retry_after\<close>.\<close>

definition error_retry_after :: "js_error \<Rightarrow> jsval" where
  "error_retry_after err =
     opt_prop (case error_response err of Some r \<Rightarrow> data r | None \<Rightarrow> Undefined) ''retry_after''"

text \<open>
  \<open>sendMessage\<close>. The template literal of the \<open>console.warn\<close> stands in the
  \<open>catch\<close> block: when the conversion of \<open>retry_after\<close> throws there, nothing
  catches it and the promise is rejected.
\<close>

definition sendMessage ::
  "engine \<Rightarrow> axios \<Rightarrow> string \<Rightarrow> string \<Rightarrow> string \<Rightarrow> string option \<Rightarrow> jsval io" where
  "sendMessage eng axios channelId content token replyToMessageId =
     (let url = DISCORD_API_BASE @ ''/channels/'' @ channelId @ ''/messages'';
          headers = createDiscordHeaders token;
          payload = send_payload content replyToMessageId
      in try_catch
           (io_bind (await_axios axios
                       \<lparr>req_verb = POST, req_url = url, req_headers = headers,
                        req_body = Some payload\<rparr>)
              (\<lambda>response. io_return (data response)))
           (\<lambda>err.
              io_bind (io_emit (Console ConsoleError
                         (''[API Error] Failed to send message to channel '' @ channelId @ '':'')
                         [error_detail err]))
                (\<lambda>_. io_bind
                        (if truthy (error_retry_after err)
                         then io_bind (io_of (js_to_text eng (error_retry_after err)))
                                (\<lambda>retry_after.
                                   io_emit (Console ConsoleWarn
                                     (''[API Warn] Hit rate limit/slow mode in channel '' @ channelId
                                      @ ''. Retry after: '' @ retry_after @ ''s'') []))
                         else io_return ())
                        (\<lambda>_. io_return Null))))"

definition deleteMessage :: "axios \<Rightarrow> string \<Rightarrow> string \<Rightarrow> string \<Rightarrow> jsval io" where
  "deleteMessage axios channelId messageId token =
     (let url = DISCORD_API_BASE @ ''/channels/'' @ channelId @ ''/messages/'' @ messageId;
          headers = createDiscordHeaders token
      in try_catch
           (io_bind (await_axios axios
                       \<lparr>req_verb = DELETE, req_url = url, req_headers = headers, req_body = None\<rparr>)
              (\<lambda>_. io_return (Bool True)))
           (\<lambda>err.
              io_bind (io_emit (Console ConsoleError
                         (''[API Error] Failed to delete message '' @ messageId @ '' in channel ''
                          @ channelId @ '':'')
                         [error_detail err]))
                (\<lambda>_. io_return (Bool False))))"

definition getBotInfo :: "axios \<Rightarrow> string \<Rightarrow> jsval io" where
  "getBotInfo axios token =
     (let url = DISCORD_API_BASE @ ''/users/@me'';
          headers = createDiscordHeaders token
      in try_catch
           (io_bind (await_axios axios
                       \<lparr>req_verb = GET, req_url = url, req_headers = headers, req_body = None\<rparr>)
              (\<lambda>response. io_return (data response)))
           (\<lambda>err.
              io_bind (io_emit (Console ConsoleError
                         (''[API Error] Failed to fetch bot info for token '' @ substring token 0 5
                          @ ''...:'')
                         [error_detail err]))
                (\<lambda>_. io_return Null)))"

text \<open>
  \<open>getChannelInfo\<close>. The template literal that builds \<open>guildUrl\<close> stands in the outer
  \<open>try\<close> block and before the inner one: when the conversion of \<open>guild_id\<close> throws,
  the outer \<open>catch\<close> returns \<open>null\<close> and no guild request is sent.
\<close>

definition getChannelInfo :: "engine \<Rightarrow> axios \<Rightarrow> string \<Rightarrow> string \<Rightarrow> jsval io" where
  "getChannelInfo eng axios channelId token =
     (let url = DISCORD_API_BASE @ ''/channels/'' @ channelId;
          headers = createDiscordHeaders token
      in try_catch
           (io_bind (await_axios axios
                       \<lparr>req_verb = GET, req_url = url, req_headers = headers, req_body = None\<rparr>)
              (\<lambda>response.
                 io_bind (io_of (get_prop (data response) ''guild_id''))
                   (\<lambda>guild_id.
                      if truthy guild_id
                      then io_bind (io_of (js_to_text eng guild_id))
                             (\<lambda>guild_id_text.
                                let guildUrl = DISCORD_API_BASE @ ''/guilds/'' @ guild_id_text
                                in try_catch
                                     (io_bind (await_axios axios
                                                 \<lparr>req_verb = GET, req_url = guildUrl,
                                                  req_headers = headers, req_body = None\<rparr>)
                                        (\<lambda>guildResponse.
                                           io_bind (io_of (get_prop (data guildResponse) ''name''))
                                             (\<lambda>guild_name.
                                                io_of (set_prop (data response) ''guild_name''
                                                         (js_or guild_name (Str ''Unknown Server''))))))
                                     (\<lambda>guildError.
                                        io_bind (io_emit (Console ConsoleError
                                                   (''[API Error] Failed to fetch guild info for channel ''
                                                    @ channelId @ '':'')
                                                   [error_detail guildError]))
                                          (\<lambda>_. io_of (set_prop (data response) ''guild_name''
                                                         (Str ''Unknown Server (Error)'')))))
                      else io_of (set_prop (data response) ''guild_name'' (Str ''Direct Message'')))))
           (\<lambda>err.
              io_bind (io_emit (Console ConsoleError
                         (''[API Error] Failed to fetch channel info for '' @ channelId @ '':'')
                         [error_detail err]))
                (\<lambda>_. io_return Null)))"

text \<open>
  \<open>generateGeminiReply\<close>. A chain of property reads such as
  \<open>response.data.candidates[0].content\<close> is \<open>read_path\<close>; it throws at the first read on
  \<open>null\<close> or \<open>undefined\<close>.
\<close>

fun read_path :: "jsval \<Rightarrow> string list \<Rightarrow> jsval outcome" where
  "read_path v [] = Returned v"
| "read_path v (k # ks) = obind (get_prop v k) (\<lambda>w. read_path w ks)"

text \<open>The condition of the \<open>if\<close> in the \<open>try\<close> block, with the short circuit of \<open>&&\<close>;
  a read or a comparison that throws ends it.\<close>

definition has_candidate_parts :: "engine \<Rightarrow> jsval \<Rightarrow> bool outcome" where
  "has_candidate_parts eng d =
     obind (read_path d [''candidates'']) (\<lambda>c1.
       if \<not> truthy c1 then Returned False
       else obind (obind (read_path d [''candidates'', ''length'']) (js_gt_zero eng)) (\<lambda>c2.
         if \<not> c2 then Returned False
         else obind (read_path d [''candidates'', ''0'', ''content'']) (\<lambda>c3.
           if \<not> truthy c3 then Returned False
           else obind (read_path d [''candidates'', ''0'', ''content'', ''parts'']) (\<lambda>c4.
             if \<not> truthy c4 then Returned False
             else obind (read_path d [''candidates'', ''0'', ''content'', ''parts'', ''length''])
                    (js_gt_zero eng)))))"

definition dquote :: string where
  "dquote = [CHR 0x22]"

text \<open>The request body: \<open>{ contents: [{ parts: [{ text: refinedPrompt }] }] }\<close>.\<close>

definition gemini_body :: "string \<Rightarrow> jsval" where
  "gemini_body refinedPrompt =
     Obj [(''contents'', Arr [Obj [(''parts'', Arr [Obj [(''text'', Str refinedPrompt)]] [])]] [])]"

text \<open>The \<open>try\<close> block from the line after \<open>await axios.post\<close> on, and the \<open>catch\<close>
  block, each under a name of its own.\<close>

definition gemini_on_response :: "engine \<Rightarrow> response \<Rightarrow> jsval io" where
  "gemini_on_response eng response =
     io_bind (io_of (has_candidate_parts eng (data response)))
       (\<lambda>usable.
          if usable
          then io_of (obind (read_path (data response)
                         [''candidates'', ''0'', ''content'', ''parts'', ''0'', ''text''])
                        call_trim)
          else io_bind
                 (io_emit (Console ConsoleWarn
                    ''[API Warn] Gemini response structure unexpected or content missing/blocked:''
                    [data response]))
                 (\<lambda>_. io_bind (io_of (get_prop (data response) ''promptFeedback''))
                    (\<lambda>feedback.
                       io_bind
                         (if truthy (opt_prop feedback ''blockReason'')
                          then io_bind (io_of (js_to_text eng (opt_prop feedback ''blockReason'')))
                                 (\<lambda>blockReason.
                                    io_emit (Console ConsoleWarn
                                      (''[API Warn] Gemini prompt blocked due to: '' @ blockReason)
                                      []))
                          else io_return ())
                         (\<lambda>_. io_return Null))))"

definition gemini_on_error :: "string \<Rightarrow> js_error \<Rightarrow> jsval io" where
  "gemini_on_error apiKey err =
     (if (case error_response err of Some r \<Rightarrow> status r = 429 | None \<Rightarrow> False)
      then io_bind (io_emit (Console ConsoleWarn
                      (''[API Warn] Google API key rate limited (429). Key: ''
                       @ substring apiKey 0 5 @ ''...'') []))
             (\<lambda>_. io_return (Str ''RATE_LIMITED''))
      else io_bind (io_emit (Console ConsoleError
                      ''[API Error] Failed to generate Gemini reply:''
                      [error_detail err]))
             (\<lambda>_. io_return Null))"

definition generateGeminiReply ::
  "engine \<Rightarrow> axios \<Rightarrow> string \<Rightarrow> string \<Rightarrow> string option \<Rightarrow> jsval io" where
  "generateGeminiReply eng axios userMessage apiKey promptLanguageArg =
     (let promptLanguage = (case promptLanguageArg of None \<Rightarrow> ''id'' | Some l \<Rightarrow> l);
          url = GOOGLE_API_BASE @ ''?key='' @ apiKey;
          headers = createGoogleHeaders;
          basePrompt =
            (if promptLanguage = ''id''
             then Some (''Balas pesan berikut dalam bahasa Indonesia: '' @ dquote @ userMessage @ dquote)
             else if promptLanguage = ''en''
             then Some (''Reply to the following message in English: '' @ dquote @ userMessage @ dquote)
             else None)
      in case basePrompt of
           None \<Rightarrow>
             io_bind (io_emit (Console ConsoleError
                        (''[API Error] Invalid prompt language: '' @ promptLanguage) []))
               (\<lambda>_. io_return Null)
         | Some base \<Rightarrow>
             (let refinedPrompt = base @ newline @ newline
                    @ ''Buatlah menjadi 1 kalimat menggunakan bahasa sehari-hari manusia.'';
                  body = gemini_body refinedPrompt
              in try_catch
                   (io_bind (await_axios axios
                               \<lparr>req_verb = POST, req_url = url, req_headers = headers,
                                req_body = Some body\<rparr>)
                      (gemini_on_response eng))
                   (gemini_on_error apiKey)))"

section \<open>The status box (ui.js)\<close>

text \<open>
  The payload of \<open>ui.updateStatus\<close>. \<open>formatStatusContent\<close> destructures it with
  defaults, so every field may be missing (\<open>None\<close>). \<open>botInfos\<close> is an object used as
  a dictionary: the list of its own properties, keys distinct, in the order
  \<open>Object.keys\<close> and \<open>Object.values\<close> enumerate them. \<open>channelDetails\<close> is a plain
  object read by key, given as its own properties; \<open>rateLimitedKeys\<close> is a \<open>Map\<close> from
  a key to the time (milliseconds since the epoch) its cooldown ends. Times are integers,
  as \<open>Date.now()\<close> returns them.
\<close>

record botInfo =
  tokenRef :: string
  fullUsername :: string

record channelDetail =
  name :: "string option"
  error :: jsval

record statusData =
  botInfos :: "(string \<times> botInfo) list option"
  channelDetails :: "(string \<rightharpoonup> channelDetail) option"
  discordTokens :: "string list option"
  googleApiKeys :: "string list option"
  channelIds :: "string list option"
  rateLimitedKeys :: "(string \<rightharpoonup> int) option"
  isRunning :: "bool option"

definition or_default :: "'a option \<Rightarrow> 'a \<Rightarrow> 'a" where
  "or_default x d = (case x of None \<Rightarrow> d | Some v \<Rightarrow> v)"

text \<open>The body of the token loop: one line per token.\<close>

definition tokenEntry :: "(string \<times> botInfo) list \<Rightarrow> nat \<Rightarrow> string \<Rightarrow> string" where
  "tokenEntry infos index token =
     (let info = find (\<lambda>bInfo. tokenRef bInfo = token) (map snd infos)
      in '' T'' @ decimal (index + 1) @ '': '' @ masked token @ '' ''
         @ (case info of
              Some i \<Rightarrow> ''({green-fg}'' @ fullUsername i @ ''{/green-fg})''
            | None \<Rightarrow> ''({red-fg}X{/red-fg})'')
         @ newline)"

fun tokenEntries :: "(string \<times> botInfo) list \<Rightarrow> nat \<Rightarrow> string list \<Rightarrow> string" where
  "tokenEntries infos index [] = []"
| "tokenEntries infos index (token # rest) =
     tokenEntry infos index token @ tokenEntries infos (index + 1) rest"

text \<open>
  The key loop reads the clock: \<open>Date.now()\<close> once for the test \<open>expiry > Date.now()\<close>
  (not at all when \<open>expiry\<close> is missing or 0, by the short circuit of \<open>&&\<close>) and once
  more for the minutes that remain. \<open>clock n\<close> is what the \<open>n\<close>-th call of
  \<open>Date.now()\<close> returns, and each function returns the number of calls made so far.
\<close>

definition key_limited :: "int option \<Rightarrow> int \<Rightarrow> bool" where
  "key_limited expiry now = (case expiry of None \<Rightarrow> False | Some e \<Rightarrow> e \<noteq> 0 \<and> now < e)"

text \<open>
  \<open>Math.ceil(ms / 1000 / 60)\<close>, on the exact quotient. The two divisions of the source
  round to a double each; for a difference of two times (below \<open>2^52\<close> in absolute
  value) no whole number lies between the exact quotient and the rounded one, and the
  ceiling is the same.
\<close>

definition ceil_minutes :: "int \<Rightarrow> int" where
  "ceil_minutes ms = - ((- ms) div 60000)"

definition keyEntry ::
  "(nat \<Rightarrow> int) \<Rightarrow> (string \<rightharpoonup> int) \<Rightarrow> nat \<Rightarrow> string \<Rightarrow> nat \<Rightarrow> string \<times> nat" where
  "keyEntry clock limits index key tick =
     (let expiry = limits key;
          reads_clock = (case expiry of None \<Rightarrow> False | Some e \<Rightarrow> e \<noteq> 0);
          limited = key_limited expiry (clock tick);
          tick1 = (if reads_clock then tick + 1 else tick);
          remaining =
            (if limited
             then '' (~'' @ decimal_int (ceil_minutes (or_default expiry 0 - clock tick1)) @ ''m)''
             else []);
          tick2 = (if limited then tick1 + 1 else tick1)
      in ('' K'' @ decimal (index + 1) @ '': '' @ masked key @ '' ''
          @ (if limited then ''{red-fg}Limited'' @ remaining @ ''{/red-fg}''
             else ''{green-fg}Active{/green-fg}'')
          @ newline,
          tick2))"

fun keyEntries ::
  "(nat \<Rightarrow> int) \<Rightarrow> (string \<rightharpoonup> int) \<Rightarrow> nat \<Rightarrow> string list \<Rightarrow> nat \<Rightarrow> string \<times> nat" where
  "keyEntries clock limits index [] tick = ([], tick)"
| "keyEntries clock limits index (key # rest) tick =
     (case keyEntry clock limits index key tick of
        (line, tick1) \<Rightarrow>
          (case keyEntries clock limits (index + 1) rest tick1 of
             (others, tick2) \<Rightarrow> (line @ others, tick2)))"

text \<open>
  The body of the channel loop. \<open>channelDetails[id]\<close> finds an own property first
  and then what a plain object inherits from \<open>Object.prototype\<close>: its eleven
  functions, each with its \<open>name\<close> and no \<open>error\<close>, and under \<open>__proto__\<close> the
  prototype itself, which has neither.
\<close>

definition inherited_detail :: "string \<Rightarrow> channelDetail option" where
  "inherited_detail k =
     (if k = ''constructor'' then Some \<lparr>name = Some ''Object'', error = Undefined\<rparr>
      else if k = ''__proto__'' then Some \<lparr>name = None, error = Undefined\<rparr>
      else if k \<in> set [''toString'', ''valueOf'', ''toLocaleString'', ''hasOwnProperty'',
                        ''isPrototypeOf'', ''propertyIsEnumerable'', ''__defineGetter__'',
                        ''__defineSetter__'', ''__lookupGetter__'', ''__lookupSetter__'']
      then Some \<lparr>name = Some k, error = Undefined\<rparr>
      else None)"

definition channelEntry :: "(string \<rightharpoonup> channelDetail) \<Rightarrow> string \<Rightarrow> string" where
  "channelEntry details_of channelId =
     (let details = (case details_of channelId of
                       Some d \<Rightarrow> Some d
                     | None \<Rightarrow> inherited_detail channelId);
          shortId = (if length channelId > 6 then ''...'' @ slice_last channelId 6 else channelId);
          shown = (case details of
                     None \<Rightarrow> ''...''
                   | Some d \<Rightarrow> (case name d of
                                 None \<Rightarrow> ''...''
                               | Some n \<Rightarrow> if n \<noteq> [] then n else ''...''));
          state = (case details of
                     None \<Rightarrow> ''{yellow-fg}Init{/yellow-fg}''
                   | Some d \<Rightarrow> if truthy (error d) then ''{red-fg}Fail{/red-fg}''
                              else ''{green-fg}OK{/green-fg}'')
      in '' '' @ shortId @ '': '' @ substring shown 0 15 @ '' ('' @ state @ '')'' @ newline)"

definition instructions :: string where
  "instructions =
     newline @ ''{bold}---------------------------------{/bold}'' @ newline
     @ ''{bold}Controls:{/}'' @ newline
     @ '' {yellow-fg}Ctrl+C{/yellow-fg}, {yellow-fg}Q{/yellow-fg}, {yellow-fg}Esc{/yellow-fg}: Exit'' @ newline
     @ '' {yellow-fg}Tab{/yellow-fg}/{yellow-fg}S-Tab{/yellow-fg}    : Cycle Focus'' @ newline
     @ '' ({yellow-fg}Yellow Border{/yellow-fg} = Active Pane)'' @ newline
     @ '' {yellow-fg}Arrows{/yellow-fg}/{yellow-fg}PgUp/Dn{/yellow-fg}: Scroll Focused Pane''"

text \<open>The three sections and the whole content.\<close>

definition tokensSection :: "(string \<times> botInfo) list \<Rightarrow> string list \<Rightarrow> string" where
  "tokensSection infos tokens =
     (let loadedBotsCount = length infos
      in newline @ ''{bold}Discord Tokens ('' @ decimal loadedBotsCount @ ''/''
         @ decimal (length tokens) @ '' loaded):{/}'' @ newline
         @ (if length tokens > 0 then tokenEntries infos 0 tokens
            else '' (None)'' @ newline))"

definition keysSection :: "(nat \<Rightarrow> int) \<Rightarrow> (string \<rightharpoonup> int) \<Rightarrow> string list \<Rightarrow> string" where
  "keysSection clock limits keys =
     newline @ ''{bold}Google API Keys ('' @ decimal (length keys) @ ''):{/}'' @ newline
     @ (if length keys > 0 then fst (keyEntries clock limits 0 keys 0)
        else '' (None)'' @ newline)"

definition channelsSection :: "(string \<rightharpoonup> channelDetail) \<Rightarrow> string list \<Rightarrow> string" where
  "channelsSection details_of ids =
     newline @ ''{bold}Channels ('' @ decimal (length ids) @ ''):{/}'' @ newline
     @ (if length ids > 0 then concat (map (channelEntry details_of) ids)
        else '' (None)'' @ newline)"

definition formatStatusContent :: "(nat \<Rightarrow> int) \<Rightarrow> statusData \<Rightarrow> string" where
  "formatStatusContent clock statusData =
     ''{bold}Status:{/} ''
     @ (if or_default (isRunning statusData) False then ''{green-fg}Running{/green-fg}''
        else ''{red-fg}Stopped{/red-fg}'')
     @ newline
     @ tokensSection (or_default (botInfos statusData) []) (or_default (discordTokens statusData) [])
     @ keysSection clock (or_default (rateLimitedKeys statusData) Map.empty)
         (or_default (googleApiKeys statusData) [])
     @ channelsSection (or_default (channelDetails statusData) Map.empty)
         (or_default (channelIds statusData) [])
     @ instructions"

text \<open>\<open>updateStatus\<close> puts the formatted content into the status box of the screen.\<close>

record TUI =
  statusBox :: string

definition updateStatus :: "(nat \<Rightarrow> int) \<Rightarrow> TUI \<Rightarrow> statusData \<Rightarrow> TUI" where
  "updateStatus clock ui statusData = ui\<lparr>statusBox := formatStatusContent clock statusData\<rparr>"

section \<open>The wiring of bot logic and status box (index.js)\<close>

text \<open>
  \<open>botLogic.js\<close> is not among the sources. The handler only calls its seven getters, so
  the bot logic is the record of what they return when the event fires: a parameter of
  the model.
\<close>

record botLogic =
  getBotInfos :: "(string \<times> botInfo) list option"
  getChannelDetails :: "(string \<rightharpoonup> channelDetail) option"
  getDiscordTokens :: "string list option"
  getGoogleApiKeys :: "string list option"
  getChannelIds :: "string list option"
  getRateLimitedKeys :: "(string \<rightharpoonup> int) option"
  isRunningStatus :: "bool option"

text \<open>The object the \<open>statusUpdate\<close> handler builds and hands to \<open>ui.updateStatus\<close>.\<close>

definition gather_statusData :: "botLogic \<Rightarrow> statusData" where
  "gather_statusData logic =
     \<lparr>botInfos = getBotInfos logic,
      channelDetails = getChannelDetails logic,
      discordTokens = getDiscordTokens logic,
      googleApiKeys = getGoogleApiKeys logic,
      channelIds = getChannelIds logic,
      rateLimitedKeys = getRateLimitedKeys logic,
      isRunning = isRunningStatus logic\<rparr>"

definition on_statusUpdate :: "(nat \<Rightarrow> int) \<Rightarrow> botLogic \<Rightarrow> TUI \<Rightarrow> TUI" where
  "on_statusUpdate clock logic ui = updateStatus clock ui (gather_statusData logic)"

section \<open>Notions used in the statements\<close>



text \<open>The two forms of a token's line, the header of the token section with the two
  counts it shows, and what it means that some bot-info record references a token.\<close>

definition resolved_line :: "nat \<Rightarrow> string \<Rightarrow> string \<Rightarrow> string" where
  "resolved_line index token username =
     '' T'' @ decimal (index + 1) @ '': '' @ masked token @ '' ({green-fg}'' @ username
     @ ''{/green-fg})'' @ newline"

definition unresolved_line :: "nat \<Rightarrow> string \<Rightarrow> string" where
  "unresolved_line index token =
     '' T'' @ decimal (index + 1) @ '': '' @ masked token @ '' ({red-fg}X{/red-fg})'' @ newline"

definition tokens_header :: "nat \<Rightarrow> nat \<Rightarrow> string" where
  "tokens_header loaded count =
     newline @ ''{bold}Discord Tokens ('' @ decimal loaded @ ''/'' @ decimal count
     @ '' loaded):{/}'' @ newline"

definition references :: "(string \<times> botInfo) list \<Rightarrow> string \<Rightarrow> bool" where
  "references infos token = (\<exists>info \<in> snd ` set infos. tokenRef info = token)"

text \<open>What the status box can show of a token and of a key: the masked form with
  the username found for the token, and the masked form with the key's cooldown time.\<close>

definition token_view :: "(string \<times> botInfo) list \<Rightarrow> string \<Rightarrow> string \<times> string option" where
  "token_view infos token =
     (masked token, map_option fullUsername (find (\<lambda>bInfo. tokenRef bInfo = token) (map snd infos)))"

definition key_view :: "(string \<rightharpoonup> int) \<Rightarrow> string \<Rightarrow> string \<times> int option" where
  "key_view limits key = (masked key, limits key)"

text \<open>The requests the client sends, by name, and the test of the \<open>catch\<close> block of
  \<open>generateGeminiReply\<close>: the error carries a response with status 429.\<close>

definition discord_request :: "http_verb \<Rightarrow> string \<Rightarrow> string \<Rightarrow> jsval option \<Rightarrow> request" where
  "discord_request v path token body =
     \<lparr>req_verb = v, req_url = DISCORD_API_BASE @ path,
      req_headers = createDiscordHeaders token, req_body = body\<rparr>"

definition fetch_request :: "string \<Rightarrow> string \<Rightarrow> request" where
  "fetch_request channelId token =
     discord_request GET (''/channels/'' @ channelId @ ''/messages?limit=5'') token None"

definition send_request :: "string \<Rightarrow> string \<Rightarrow> string \<Rightarrow> string option \<Rightarrow> request" where
  "send_request channelId content token replyToMessageId =
     discord_request POST (''/channels/'' @ channelId @ ''/messages'') token
       (Some (send_payload content replyToMessageId))"

definition delete_request :: "string \<Rightarrow> string \<Rightarrow> string \<Rightarrow> request" where
  "delete_request channelId messageId token =
     discord_request DELETE (''/channels/'' @ channelId @ ''/messages/'' @ messageId) token None"

definition botinfo_request :: "string \<Rightarrow> request" where
  "botinfo_request token = discord_request GET ''/users/@me'' token None"

definition channel_request :: "string \<Rightarrow> string \<Rightarrow> request" where
  "channel_request channelId token = discord_request GET (''/channels/'' @ channelId) token None"

definition guild_request :: "string \<Rightarrow> string \<Rightarrow> request" where
  "guild_request guildId token = discord_request GET (''/guilds/'' @ guildId) token None"

definition gemini_prompt :: "string \<Rightarrow> string \<Rightarrow> string" where
  "gemini_prompt lang userMessage =
     (if lang = ''id'' then ''Balas pesan berikut dalam bahasa Indonesia: ''
      else ''Reply to the following message in English: '')
     @ dquote @ userMessage @ dquote @ newline @ newline
     @ ''Buatlah menjadi 1 kalimat menggunakan bahasa sehari-hari manusia.''"

definition gemini_request :: "string \<Rightarrow> string \<Rightarrow> string \<Rightarrow> request" where
  "gemini_request apiKey lang userMessage =
     \<lparr>req_verb = POST, req_url = GOOGLE_API_BASE @ ''?key='' @ apiKey,
      req_headers = createGoogleHeaders,
      req_body = Some (gemini_body (gemini_prompt lang userMessage))\<rparr>"

definition rate_limited_error :: "js_error \<Rightarrow> bool" where
  "rate_limited_error err = (case error_response err of Some r \<Rightarrow> status r = 429 | None \<Rightarrow> False)"

text \<open>The \<open>guild_id\<close> of a channel object, and the value \<open>getChannelInfo\<close> assigns to
  \<open>guild_name\<close>, by the three branches of the source; \<open>guild_id_text\<close> is the text
  the template literal has printed for the \<open>guild_id\<close>.\<close>

definition guild_id_of :: "(string \<times> jsval) list \<Rightarrow> jsval" where
  "guild_id_of props = (case map_of props ''guild_id'' of Some g \<Rightarrow> g | None \<Rightarrow> Undefined)"

definition guild_name_for :: "axios \<Rightarrow> string \<Rightarrow> jsval \<Rightarrow> string \<Rightarrow> jsval" where
  "guild_name_for axios token guild_id guild_id_text =
     (if truthy guild_id
      then (case axios (guild_request guild_id_text token) of
              Resolved guildResponse \<Rightarrow>
                (case get_prop (data guildResponse) ''name'' of
                   Returned n \<Rightarrow> js_or n (Str ''Unknown Server'')
                 | Thrown e \<Rightarrow> Str ''Unknown Server (Error)'')
            | Rejected e \<Rightarrow> Str ''Unknown Server (Error)'')
      else Str ''Direct Message'')"

text \<open>The value \<open>generateGeminiReply\<close> returns for the body of a response that arrived.\<close>

definition reply_of_body :: "engine \<Rightarrow> jsval \<Rightarrow> jsval" where
  "reply_of_body eng d =
     (case has_candidate_parts eng d of
        Returned usable \<Rightarrow>
          if usable
          then (case obind (read_path d [''candidates'', ''0'', ''content'', ''parts'', ''0'', ''text''])
                       call_trim of
                  Returned v \<Rightarrow> v
                | Thrown e \<Rightarrow> Null)
          else Null
      | Thrown e \<Rightarrow> Null)"

text \<open>The first line of the status box, the header of the key section, and a section's
  body: one line for each index below the count, or the line \<open>(None)\<close> when the count
  is 0.\<close>

definition status_line :: "bool \<Rightarrow> string" where
  "status_line running =
     ''{bold}Status:{/} ''
     @ (if running then ''{green-fg}Running{/green-fg}'' else ''{red-fg}Stopped{/red-fg}'')
     @ newline"

definition keys_header :: "nat \<Rightarrow> string" where
  "keys_header count =
     newline @ ''{bold}Google API Keys ('' @ decimal count @ ''):{/}'' @ newline"

definition lines_or_none :: "nat \<Rightarrow> (nat \<Rightarrow> string) \<Rightarrow> string" where
  "lines_or_none count line =
     (if count = 0 then '' (None)'' @ newline else concat (map line [0..<count]))"


section \<open>Properties of the masked form\<close>

lemma substring_prefix: "0 \<le> k \<Longrightarrow> substring s 0 k = take (nat k) s"
  by (auto simp: substring_def clamp_index_def Let_def)

lemma substring_from_suffix:
  "substring_from s k = drop (nat k) s"
  by (auto simp: substring_from_def substring_def clamp_index_def Let_def max_def min_def)

lemma masked_eq: "masked t = take 5 t @ ''...'' @ drop (length t - 4) t"
proof -
  have "nat (int (length t) - 4) = length t - 4" by simp
  then show ?thesis
    by (simp add: masked_def substring_prefix substring_from_suffix)
qed

lemma length_masked: "9 \<le> length t \<Longrightarrow> length (masked t) = 12"
  by (simp add: masked_eq)

lemma masked_middle:
  assumes "length pre = 5" "length suf = 4"
  shows "masked (pre @ middle @ suf) = pre @ ''...'' @ suf"
  using assms by (simp add: masked_eq)

lemma masked_shape:
  assumes "9 \<le> length t"
  shows "masked t = take 5 t @ ''...'' @ drop (length t - 4) t
       \<and> length (masked t) = 12
       \<and> t = take 5 t @ take (length t - 9) (drop 5 t) @ drop (length t - 4) t
       \<and> (\<forall>middle. masked (take 5 t @ middle @ drop (length t - 4) t) = masked t)"
proof -
  have shape: "masked t = take 5 t @ ''...'' @ drop (length t - 4) t"
    by (rule masked_eq)
  have len: "length (masked t) = 12"
    using assms by (rule length_masked)
  have tail: "drop (length t - 9) (drop 5 t) = drop (length t - 4) t"
    using assms by simp
  have "take (length t - 9) (drop 5 t) @ drop (length t - 9) (drop 5 t) = drop 5 t"
    by (rule append_take_drop_id)
  with tail have "take (length t - 9) (drop 5 t) @ drop (length t - 4) t = drop 5 t"
    by (simp only:)
  then have split: "t = take 5 t @ take (length t - 9) (drop 5 t) @ drop (length t - 4) t"
    by simp
  have indep: "masked (take 5 t @ middle @ drop (length t - 4) t) = masked t" for middle
  proof -
    have "length (take 5 t) = 5" and "length (drop (length t - 4) t) = 4"
      using assms by simp_all
    then show ?thesis
      by (simp only: masked_middle shape)
  qed
  from shape len split indep show ?thesis by blast
qed

section \<open>The layout of the status box\<close>

text \<open>The two loops, line by line: the token at position \<open>i\<close> gives the line numbered
  \<open>i + 1\<close>, and the key at position \<open>j\<close> gives the line numbered \<open>j + 1\<close>, judged at
  the clock reading that follows the readings made for the keys before it.\<close>

lemma tokenEntries_lines:
  "tokenEntries infos index tokens
   = concat (map (\<lambda>i. tokenEntry infos (index + i) (tokens ! i)) [0..<length tokens])"
proof (induction tokens arbitrary: index)
  case Nil
  then show ?case by simp
next
  case (Cons t ts)
  have "tokenEntries infos index (t # ts)
      = tokenEntry infos index t @ tokenEntries infos (index + 1) ts"
    by simp
  also have "tokenEntries infos (index + 1) ts
      = concat (map (\<lambda>i. tokenEntry infos (index + 1 + i) (ts ! i)) [0..<length ts])"
    by (rule Cons.IH)
  finally show ?case
    by (simp add: map_upt_Suc del: upt_Suc)
qed

lemma keyEntries_Cons:
  "fst (keyEntries clock limits index (k # ks) tick)
   = fst (keyEntry clock limits index k tick)
     @ fst (keyEntries clock limits (index + 1) ks (snd (keyEntry clock limits index k tick)))"
  "snd (keyEntries clock limits index (k # ks) tick)
   = snd (keyEntries clock limits (index + 1) ks (snd (keyEntry clock limits index k tick)))"
  by (simp_all split: prod.splits)

lemma keyEntries_reads:
  "snd (keyEntries clock limits index keys tick) = snd (keyEntries clock limits index' keys tick)"
proof (induction keys arbitrary: index index' tick)
  case Nil
  then show ?case by simp
next
  case (Cons k ks)
  have "snd (keyEntry clock limits index k tick) = snd (keyEntry clock limits index' k tick)"
    by (simp add: keyEntry_def Let_def)
  with Cons.IH [of "index + 1" _ "index' + 1"] show ?case
    by (simp only: keyEntries_Cons)
qed

lemma keyEntries_lines:
  "fst (keyEntries clock limits index keys tick)
   = concat (map (\<lambda>j. fst (keyEntry clock limits (index + j) (keys ! j)
                              (snd (keyEntries clock limits 0 (take j keys) tick))))
               [0..<length keys])"
proof (induction keys arbitrary: index tick)
  case Nil
  then show ?case by simp
next
  case (Cons k ks)
  define tick1 where "tick1 = snd (keyEntry clock limits index k tick)"
  have first: "snd (keyEntry clock limits 0 k tick) = tick1"
    by (simp add: tick1_def keyEntry_def Let_def)
  have rest: "snd (keyEntries clock limits 0 (take (Suc j) (k # ks)) tick)
            = snd (keyEntries clock limits 0 (take j ks) tick1)" for j
    using keyEntries_reads [of clock limits "0 + 1" "take j ks" tick1 0]
    by (simp add: keyEntries_Cons first del: keyEntries.simps(2))
  have "fst (keyEntries clock limits index (k # ks) tick)
      = fst (keyEntry clock limits index k tick)
        @ fst (keyEntries clock limits (index + 1) ks tick1)"
    by (simp only: keyEntries_Cons tick1_def)
  also have "fst (keyEntries clock limits (index + 1) ks tick1)
      = concat (map (\<lambda>j. fst (keyEntry clock limits (index + 1 + j) (ks ! j)
                              (snd (keyEntries clock limits 0 (take j ks) tick1))))
               [0..<length ks])"
    by (rule Cons.IH)
  finally show ?case
    by (simp add: map_upt_Suc rest del: upt_Suc keyEntries.simps(2) take_Suc_Cons)
qed

lemma tokensSection_layout:
  "tokensSection infos tokens
   = tokens_header (length infos) (length tokens)
     @ lines_or_none (length tokens) (\<lambda>i. tokenEntry infos i (tokens ! i))"
  by (simp add: tokensSection_def tokens_header_def lines_or_none_def Let_def
      tokenEntries_lines [of infos 0 tokens])

lemma keysSection_layout:
  "keysSection clock limits keys
   = keys_header (length keys)
     @ lines_or_none (length keys)
         (\<lambda>j. fst (keyEntry clock limits j (keys ! j)
                      (snd (keyEntries clock limits 0 (take j keys) 0))))"
  by (simp add: keysSection_def keys_header_def lines_or_none_def
      keyEntries_lines [of clock limits 0 keys 0])

lemma formatStatusContent_sections:
  "formatStatusContent clock statusData
   = status_line (or_default (isRunning statusData) False)
     @ tokensSection (or_default (botInfos statusData) []) (or_default (discordTokens statusData) [])
     @ keysSection clock (or_default (rateLimitedKeys statusData) Map.empty)
         (or_default (googleApiKeys statusData) [])
     @ channelsSection (or_default (channelDetails statusData) Map.empty)
         (or_default (channelIds statusData) [])
     @ instructions"
  by (simp add: formatStatusContent_def status_line_def)

lemma tokenEntry_shape:
  "\<exists>mark. tokenEntry infos index t
            = '' T'' @ decimal (index + 1) @ '': '' @ masked t @ '' ('' @ mark @ '')'' @ newline
         \<and> (mark = ''{red-fg}X{/red-fg}''
            \<or> (\<exists>info \<in> snd ` set infos. mark = ''{green-fg}'' @ fullUsername info @ ''{/green-fg}''))"
proof (cases "find (\<lambda>bInfo. tokenRef bInfo = t) (map snd infos)")
  case None
  then have "tokenEntry infos index t
            = '' T'' @ decimal (index + 1) @ '': '' @ masked t @ '' ('' @ ''{red-fg}X{/red-fg}''
              @ '')'' @ newline"
    by (simp add: tokenEntry_def)
  then show ?thesis by blast
next
  case (Some info)
  then have "info \<in> snd ` set infos"
    by (auto simp: find_Some_iff)
  moreover from Some have "tokenEntry infos index t
            = '' T'' @ decimal (index + 1) @ '': '' @ masked t @ '' (''
              @ (''{green-fg}'' @ fullUsername info @ ''{/green-fg}'') @ '')'' @ newline"
    by (simp add: tokenEntry_def)
  ultimately show ?thesis by blast
qed

lemma keyEntry_shape:
  "\<exists>mark. fst (keyEntry clock limits index k tick)
            = '' K'' @ decimal (index + 1) @ '': '' @ masked k @ '' '' @ mark @ newline
         \<and> (mark = ''{green-fg}Active{/green-fg}''
            \<or> (\<exists>minutes. mark = ''{red-fg}Limited (~'' @ decimal_int minutes @ ''m){/red-fg}''))"
proof (cases "key_limited (limits k) (clock tick)")
  case False
  then have "fst (keyEntry clock limits index k tick)
            = '' K'' @ decimal (index + 1) @ '': '' @ masked k @ '' ''
              @ ''{green-fg}Active{/green-fg}'' @ newline"
    by (simp add: keyEntry_def Let_def)
  then show ?thesis by blast
next
  case True
  define minutes where
    "minutes = ceil_minutes (or_default (limits k) 0 - clock (tick + 1))"
  from True have "limits k \<noteq> None \<and> limits k \<noteq> Some 0"
    by (auto simp: key_limited_def split: option.splits)
  with True have "fst (keyEntry clock limits index k tick)
            = '' K'' @ decimal (index + 1) @ '': '' @ masked k @ '' ''
              @ (''{red-fg}Limited (~'' @ decimal_int minutes @ ''m){/red-fg}'') @ newline"
    by (auto simp: keyEntry_def Let_def minutes_def)
  then show ?thesis by blast
qed

text \<open>
  Claim C3. The status box holds, after the status line and the header of each section,
  one line for each configured token and one for each configured key, in order (or the
  line \<open>(None)\<close> for an empty list). A token's line is its number, the masked form of
  the token and a mark that is \<open>X\<close> or the username of a bot-info record; a key's line
  is its number, the masked form of the key and a mark that is \<open>Active\<close> or
  \<open>Limited\<close> with a number of minutes. For every token or key \<open>t\<close> of length at least
  9 the masked form is the first 5 characters of \<open>t\<close>, the marker \<open>...\<close> and the
  last 4 characters of \<open>t\<close>, 12 characters in all. \<open>t\<close> itself is these 5 characters, a
  middle portion and these 4 characters, and the masked form carries nothing of the
  middle portion: it stays the same whatever stands in its place.
\<close>

theorem status_box_shows_first5_last4:
  fixes statusData :: statusData
  defines "infos \<equiv> or_default (botInfos statusData) []"
      and "tokens \<equiv> or_default (discordTokens statusData) []"
      and "keys \<equiv> or_default (googleApiKeys statusData) []"
      and "limits \<equiv> or_default (rateLimitedKeys statusData) Map.empty"
  shows "formatStatusContent clock statusData
       = status_line (or_default (isRunning statusData) False)
         @ tokens_header (length infos) (length tokens)
         @ lines_or_none (length tokens) (\<lambda>i. tokenEntry infos i (tokens ! i))
         @ keys_header (length keys)
         @ lines_or_none (length keys)
             (\<lambda>j. fst (keyEntry clock limits j (keys ! j)
                          (snd (keyEntries clock limits 0 (take j keys) 0))))
         @ channelsSection (or_default (channelDetails statusData) Map.empty)
             (or_default (channelIds statusData) [])
         @ instructions
     \<and> (\<forall>index t. \<exists>mark.
           tokenEntry infos index t
             = '' T'' @ decimal (index + 1) @ '': '' @ masked t @ '' ('' @ mark @ '')'' @ newline
           \<and> (mark = ''{red-fg}X{/red-fg}''
              \<or> (\<exists>info \<in> snd ` set infos.
                    mark = ''{green-fg}'' @ fullUsername info @ ''{/green-fg}'')))
     \<and> (\<forall>index k tick. \<exists>mark.
           fst (keyEntry clock limits index k tick)
             = '' K'' @ decimal (index + 1) @ '': '' @ masked k @ '' '' @ mark @ newline
           \<and> (mark = ''{green-fg}Active{/green-fg}''
              \<or> (\<exists>minutes. mark = ''{red-fg}Limited (~'' @ decimal_int minutes @ ''m){/red-fg}'')))
     \<and> (\<forall>t. 9 \<le> length t \<longrightarrow>
           masked t = take 5 t @ ''...'' @ drop (length t - 4) t
         \<and> length (masked t) = 12
         \<and> t = take 5 t @ take (length t - 9) (drop 5 t) @ drop (length t - 4) t
         \<and> (\<forall>middle. masked (take 5 t @ middle @ drop (length t - 4) t) = masked t))"
proof (intro conjI allI impI)
  show "formatStatusContent clock statusData
       = status_line (or_default (isRunning statusData) False)
         @ tokens_header (length infos) (length tokens)
         @ lines_or_none (length tokens) (\<lambda>i. tokenEntry infos i (tokens ! i))
         @ keys_header (length keys)
         @ lines_or_none (length keys)
             (\<lambda>j. fst (keyEntry clock limits j (keys ! j)
                          (snd (keyEntries clock limits 0 (take j keys) 0))))
         @ channelsSection (or_default (channelDetails statusData) Map.empty)
             (or_default (channelIds statusData) [])
         @ instructions"
    unfolding infos_def tokens_def keys_def limits_def
    by (simp only: formatStatusContent_sections tokensSection_layout keysSection_layout
        append_assoc)
  show "\<exists>mark.
           tokenEntry infos index t
             = '' T'' @ decimal (index + 1) @ '': '' @ masked t @ '' ('' @ mark @ '')'' @ newline
           \<and> (mark = ''{red-fg}X{/red-fg}''
              \<or> (\<exists>info \<in> snd ` set infos.
                    mark = ''{green-fg}'' @ fullUsername info @ ''{/green-fg}''))" for index t
    by (rule tokenEntry_shape)
  show "\<exists>mark.
           fst (keyEntry clock limits index k tick)
             = '' K'' @ decimal (index + 1) @ '': '' @ masked k @ '' '' @ mark @ newline
           \<and> (mark = ''{green-fg}Active{/green-fg}''
              \<or> (\<exists>minutes. mark = ''{red-fg}Limited (~'' @ decimal_int minutes @ ''m){/red-fg}''))"
    for index k tick
    by (rule keyEntry_shape)
  show "masked t = take 5 t @ ''...'' @ drop (length t - 4) t" if "9 \<le> length t" for t
    by (rule masked_eq)
  show "length (masked t) = 12" if "9 \<le> length t" for t
    using that by (rule length_masked)
  show "t = take 5 t @ take (length t - 9) (drop 5 t) @ drop (length t - 4) t"
    if "9 \<le> length t" for t :: string
    using masked_shape [OF that] by blast
  show "masked (take 5 t @ middle @ drop (length t - 4) t) = masked t"
    if "9 \<le> length t" for t middle
    using masked_shape [OF that] by blast
qed

theorem status_box_shows_first5_last4_witness:
  "9 \<le> length ''MTIzNDU2Nzg5MDEy.AAAA''
   \<and> masked ''MTIzNDU2Nzg5MDEy.AAAA'' = ''MTIzN...AAAA''
   \<and> formatStatusContent (\<lambda>n. 1000 + int n)
        \<lparr>botInfos = Some [], channelDetails = None,
         discordTokens = Some [''MTIzNDU2Nzg5MDEy.AAAA''],
         googleApiKeys = Some [''AIzaSyA-first-key-0001''], channelIds = None,
         rateLimitedKeys = None, isRunning = Some True\<rparr>
     = status_line True
       @ tokens_header 0 1 @ '' T1: MTIzN...AAAA ({red-fg}X{/red-fg})'' @ newline
       @ keys_header 1 @ '' K1: AIzaS...0001 {green-fg}Active{/green-fg}'' @ newline
       @ channelsSection Map.empty [] @ instructions"
  using status_box_shows_first5_last4
    [where clock = "\<lambda>n. 1000 + int n"
       and statusData = "\<lparr>botInfos = Some [], channelDetails = None,
         discordTokens = Some [''MTIzNDU2Nzg5MDEy.AAAA''],
         googleApiKeys = Some [''AIzaSyA-first-key-0001''], channelIds = None,
         rateLimitedKeys = None, isRunning = Some True\<rparr>"]
  by (simp add: or_default_def lines_or_none_def tokenEntry_def keyEntry_def key_limited_def
      masked_eq decimal_def decimal_onto.simps digit_char_def Let_def)

section \<open>Key availability in the status box\<close>










section \<open>Token lines and the loaded count\<close>

lemma resolved_neq_unresolved: "resolved_line index token username \<noteq> unresolved_line index token"
  by (simp add: resolved_line_def unresolved_line_def)

lemma find_None_references:
  "find (\<lambda>b. tokenRef b = token) (map snd infos) = None \<longleftrightarrow> \<not> references infos token"
  by (auto simp: references_def find_None_iff)

lemma find_Some_references:
  "find (\<lambda>b. tokenRef b = token) (map snd infos) = Some info \<Longrightarrow>
   info \<in> snd ` set infos \<and> tokenRef info = token"
  by (auto simp: find_Some_iff)

lemma tokenEntry_unresolved:
  "\<not> references infos token \<Longrightarrow> tokenEntry infos index token = unresolved_line index token"
  by (simp add: tokenEntry_def unresolved_line_def find_None_references [symmetric])

lemma tokenEntry_resolved:
  assumes "references infos token"
  shows "\<exists>info \<in> snd ` set infos. tokenRef info = token
           \<and> tokenEntry infos index token = resolved_line index token (fullUsername info)"
proof -
  from assms obtain info where found: "find (\<lambda>b. tokenRef b = token) (map snd infos) = Some info"
    using find_None_references [of token infos] by (cases "find (\<lambda>b. tokenRef b = token) (map snd infos)") auto
  then have "tokenEntry infos index token = resolved_line index token (fullUsername info)"
    by (simp add: tokenEntry_def resolved_line_def)
  with find_Some_references [OF found] show ?thesis by blast
qed

lemma find_filter_eq: "find P xs = (case filter P xs of [] \<Rightarrow> None | x # _ \<Rightarrow> Some x)"
  by (induction xs) auto

lemma tokenEntry_cong:
  assumes "filter (\<lambda>b. tokenRef b = token) (map snd infos')
         = filter (\<lambda>b. tokenRef b = token) (map snd infos)"
  shows "tokenEntry infos' index token = tokenEntry infos index token"
proof -
  have "find (\<lambda>b. tokenRef b = token) (map snd infos')
      = find (\<lambda>b. tokenRef b = token) (map snd infos)"
    using assms by (simp add: find_filter_eq [of _ "map snd infos'"] find_filter_eq [of _ "map snd infos"])
  then show ?thesis by (simp add: tokenEntry_def)
qed

lemma count_resolved:
  assumes "distinct tokens" "distinct (map (tokenRef \<circ> snd) infos)"
      and "tokenRef ` snd ` set infos \<subseteq> set tokens"
  shows "length (filter (references infos) tokens) = length infos"
proof -
  have refs: "{t. references infos t} = tokenRef ` snd ` set infos"
    by (auto simp: references_def)
  have "length (filter (references infos) tokens) = card ({t. references infos t} \<inter> set tokens)"
    using assms(1) by (rule distinct_length_filter)
  also have "{t. references infos t} \<inter> set tokens = set (map (tokenRef \<circ> snd) infos)"
    using assms(3) by (auto simp: refs)
  also have "card (set (map (tokenRef \<circ> snd) infos)) = length (map (tokenRef \<circ> snd) infos)"
    using assms(2) by (rule distinct_card)
  finally show ?thesis by simp
qed

text \<open>
  Claim C8, as amended. The status box holds, after the header of the token section, one
  line for each configured token, in order. A token's line shows the username of a
  bot-info record that references the token exactly when some record references it, and
  the marker \<open>X\<close> exactly when none does. The count in the header is the number of
  bot-info records; it is the number of tokens shown with an identity when the tokens
  are distinct and the records reference distinct configured tokens. A token's line
  depends on the records that reference this token only, so what is fetched or not for
  the other tokens leaves it as it is.
\<close>

theorem token_lines_and_loaded_count:
  fixes statusData :: statusData
  defines "infos \<equiv> or_default (botInfos statusData) []"
      and "tokens \<equiv> or_default (discordTokens statusData) []"
  shows "formatStatusContent clock statusData
       = status_line (or_default (isRunning statusData) False)
         @ tokens_header (length infos) (length tokens)
         @ lines_or_none (length tokens) (\<lambda>i. tokenEntry infos i (tokens ! i))
         @ keysSection clock (or_default (rateLimitedKeys statusData) Map.empty)
             (or_default (googleApiKeys statusData) [])
         @ channelsSection (or_default (channelDetails statusData) Map.empty)
             (or_default (channelIds statusData) [])
         @ instructions
 \<and> (\<forall>index token.
       (references infos token \<longleftrightarrow>
          (\<exists>info \<in> snd ` set infos. tokenRef info = token
             \<and> tokenEntry infos index token = resolved_line index token (fullUsername info)))
     \<and> (\<not> references infos token \<longleftrightarrow>
          tokenEntry infos index token = unresolved_line index token))
 \<and> (distinct tokens \<and> distinct (map (tokenRef \<circ> snd) infos)
      \<and> tokenRef ` snd ` set infos \<subseteq> set tokens
     \<longrightarrow> length infos = length (filter (references infos) tokens))
 \<and> (\<forall>index token infos'.
       filter (\<lambda>b. tokenRef b = token) (map snd infos')
         = filter (\<lambda>b. tokenRef b = token) (map snd infos)
     \<longrightarrow> tokenEntry infos' index token = tokenEntry infos index token)"
proof (intro conjI impI allI)
  show "formatStatusContent clock statusData
       = status_line (or_default (isRunning statusData) False)
         @ tokens_header (length infos) (length tokens)
         @ lines_or_none (length tokens) (\<lambda>i. tokenEntry infos i (tokens ! i))
         @ keysSection clock (or_default (rateLimitedKeys statusData) Map.empty)
             (or_default (googleApiKeys statusData) [])
         @ channelsSection (or_default (channelDetails statusData) Map.empty)
             (or_default (channelIds statusData) [])
         @ instructions"
    unfolding infos_def tokens_def
    by (simp only: formatStatusContent_sections tokensSection_layout append_assoc)
next
  fix index token
  show "references infos token \<longleftrightarrow>
      (\<exists>info \<in> snd ` set infos. tokenRef info = token
         \<and> tokenEntry infos index token = resolved_line index token (fullUsername info))"
    using tokenEntry_resolved [of infos token index] by (auto simp: references_def)
next
  fix index token
  show "\<not> references infos token \<longleftrightarrow> tokenEntry infos index token = unresolved_line index token"
  proof
    assume "\<not> references infos token"
    then show "tokenEntry infos index token = unresolved_line index token"
      by (rule tokenEntry_unresolved)
  next
    assume line: "tokenEntry infos index token = unresolved_line index token"
    show "\<not> references infos token"
    proof
      assume "references infos token"
      then obtain info :: botInfo where
        "tokenEntry infos index token = resolved_line index token (fullUsername info)"
        using tokenEntry_resolved [of infos token index] by blast
      with line show False by (simp add: resolved_neq_unresolved)
    qed
  qed
next
  assume "distinct tokens \<and> distinct (map (tokenRef \<circ> snd) infos)
      \<and> tokenRef ` snd ` set infos \<subseteq> set tokens"
  then show "length infos = length (filter (references infos) tokens)"
    by (simp add: count_resolved)
next
  fix index token and infos' :: "(string \<times> botInfo) list"
  assume "filter (\<lambda>b. tokenRef b = token) (map snd infos')
               = filter (\<lambda>b. tokenRef b = token) (map snd infos)"
  then show "tokenEntry infos' index token = tokenEntry infos index token"
    by (rule tokenEntry_cong)
qed

theorem token_lines_and_loaded_count_witness:
  "formatStatusContent (\<lambda>n. 1000 + int n)
     \<lparr>botInfos = Some [(''1001'', \<lparr>tokenRef = ''OTg3NjU0MzIxMDk4.BBBB'',
                                  fullUsername = ''bee#0002''\<rparr>)],
      channelDetails = None,
      discordTokens = Some [''MTIzNDU2Nzg5MDEy.AAAA'', ''OTg3NjU0MzIxMDk4.BBBB''],
      googleApiKeys = None, channelIds = None, rateLimitedKeys = None, isRunning = Some True\<rparr>
   = status_line True
     @ tokens_header 1 2
     @ unresolved_line 0 ''MTIzNDU2Nzg5MDEy.AAAA''
     @ resolved_line 1 ''OTg3NjU0MzIxMDk4.BBBB'' ''bee#0002''
     @ keysSection (\<lambda>n. 1000 + int n) Map.empty []
     @ channelsSection Map.empty [] @ instructions
   \<and> distinct [''MTIzNDU2Nzg5MDEy.AAAA'', ''OTg3NjU0MzIxMDk4.BBBB'']
   \<and> distinct (map (tokenRef \<circ> snd)
         [(''1001'', \<lparr>tokenRef = ''OTg3NjU0MzIxMDk4.BBBB'', fullUsername = ''bee#0002''\<rparr>)])
   \<and> length [(''1001'', \<lparr>tokenRef = ''OTg3NjU0MzIxMDk4.BBBB'', fullUsername = ''bee#0002''\<rparr>)]
       = length (filter
           (references [(''1001'', \<lparr>tokenRef = ''OTg3NjU0MzIxMDk4.BBBB'', fullUsername = ''bee#0002''\<rparr>)])
           [''MTIzNDU2Nzg5MDEy.AAAA'', ''OTg3NjU0MzIxMDk4.BBBB''])"
proof -
  have layout: "formatStatusContent (\<lambda>n. 1000 + int n)
     \<lparr>botInfos = Some [(''1001'', \<lparr>tokenRef = ''OTg3NjU0MzIxMDk4.BBBB'',
                                  fullUsername = ''bee#0002''\<rparr>)],
      channelDetails = None,
      discordTokens = Some [''MTIzNDU2Nzg5MDEy.AAAA'', ''OTg3NjU0MzIxMDk4.BBBB''],
      googleApiKeys = None, channelIds = None, rateLimitedKeys = None, isRunning = Some True\<rparr>
   = status_line True
     @ tokens_header 1 2
     @ unresolved_line 0 ''MTIzNDU2Nzg5MDEy.AAAA''
     @ resolved_line 1 ''OTg3NjU0MzIxMDk4.BBBB'' ''bee#0002''
     @ keysSection (\<lambda>n. 1000 + int n) Map.empty []
     @ channelsSection Map.empty [] @ instructions"
    using token_lines_and_loaded_count
      [where clock = "\<lambda>n. 1000 + int n"
         and statusData = "\<lparr>botInfos = Some [(''1001'', \<lparr>tokenRef = ''OTg3NjU0MzIxMDk4.BBBB'',
                                  fullUsername = ''bee#0002''\<rparr>)],
      channelDetails = None,
      discordTokens = Some [''MTIzNDU2Nzg5MDEy.AAAA'', ''OTg3NjU0MzIxMDk4.BBBB''],
      googleApiKeys = None, channelIds = None, rateLimitedKeys = None, isRunning = Some True\<rparr>",
       THEN conjunct1]
    by (simp add: or_default_def lines_or_none_def tokenEntry_def unresolved_line_def
        resolved_line_def decimal_def decimal_onto.simps digit_char_def Let_def numeral_2_eq_2)
  have counted: "distinct [''MTIzNDU2Nzg5MDEy.AAAA'', ''OTg3NjU0MzIxMDk4.BBBB'']
   \<and> distinct (map (tokenRef \<circ> snd)
         [(''1001'', \<lparr>tokenRef = ''OTg3NjU0MzIxMDk4.BBBB'', fullUsername = ''bee#0002''\<rparr>)])
   \<and> length [(''1001'', \<lparr>tokenRef = ''OTg3NjU0MzIxMDk4.BBBB'', fullUsername = ''bee#0002''\<rparr>)]
       = length (filter
           (references [(''1001'', \<lparr>tokenRef = ''OTg3NjU0MzIxMDk4.BBBB'', fullUsername = ''bee#0002''\<rparr>)])
           [''MTIzNDU2Nzg5MDEy.AAAA'', ''OTg3NjU0MzIxMDk4.BBBB''])"
    using token_lines_and_loaded_count
      [where clock = "\<lambda>n. 1000 + int n"
         and statusData = "\<lparr>botInfos = Some [(''1001'', \<lparr>tokenRef = ''OTg3NjU0MzIxMDk4.BBBB'',
                                  fullUsername = ''bee#0002''\<rparr>)],
      channelDetails = None,
      discordTokens = Some [''MTIzNDU2Nzg5MDEy.AAAA'', ''OTg3NjU0MzIxMDk4.BBBB''],
      googleApiKeys = None, channelIds = None, rateLimitedKeys = None, isRunning = Some True\<rparr>",
       THEN conjunct2, THEN conjunct2, THEN conjunct1]
    by (simp add: or_default_def)
  from layout counted show ?thesis by (simp only: simp_thms)
qed

text \<open>
  The claim as stated fails: with one record that references no configured token the
  header says \<open>1/1 loaded\<close> and no token has an identity; with one token configured
  twice the header says \<open>1/2 loaded\<close> and both lines show the identity.
\<close>

theorem loaded_count_counterexample:
  "tokensSection [(''1001'', \<lparr>tokenRef = ''OTg3NjU0MzIxMDk4.BBBB'', fullUsername = ''bee#0002''\<rparr>)]
     [''MTIzNDU2Nzg5MDEy.AAAA'']
   = tokens_header 1 1 @ unresolved_line 0 ''MTIzNDU2Nzg5MDEy.AAAA''
   \<and> length (filter
         (references [(''1001'', \<lparr>tokenRef = ''OTg3NjU0MzIxMDk4.BBBB'', fullUsername = ''bee#0002''\<rparr>)])
         [''MTIzNDU2Nzg5MDEy.AAAA'']) = 0
   \<and> tokensSection [(''1001'', \<lparr>tokenRef = ''OTg3NjU0MzIxMDk4.BBBB'', fullUsername = ''bee#0002''\<rparr>)]
         [''OTg3NjU0MzIxMDk4.BBBB'', ''OTg3NjU0MzIxMDk4.BBBB'']
       = tokens_header 1 2 @ resolved_line 0 ''OTg3NjU0MzIxMDk4.BBBB'' ''bee#0002''
         @ resolved_line 1 ''OTg3NjU0MzIxMDk4.BBBB'' ''bee#0002''
   \<and> length (filter
         (references [(''1001'', \<lparr>tokenRef = ''OTg3NjU0MzIxMDk4.BBBB'', fullUsername = ''bee#0002''\<rparr>)])
         [''OTg3NjU0MzIxMDk4.BBBB'', ''OTg3NjU0MzIxMDk4.BBBB'']) = 2"
  by (simp add: tokensSection_def tokenEntry_def tokens_header_def unresolved_line_def
      resolved_line_def references_def Let_def decimal_def decimal_onto.simps digit_char_def)

section \<open>Secrets in the status payload and in the status box\<close>

lemma tokenEntry_view:
  assumes "token_view infos token = token_view infos' token'"
  shows "tokenEntry infos index token = tokenEntry infos' index token'"
proof -
  from assms have m: "masked token = masked token'"
    and f: "map_option fullUsername (find (\<lambda>bInfo. tokenRef bInfo = token) (map snd infos))
          = map_option fullUsername (find (\<lambda>bInfo. tokenRef bInfo = token') (map snd infos'))"
    by (simp_all add: token_view_def)
  show ?thesis
  proof (cases "find (\<lambda>bInfo. tokenRef bInfo = token) (map snd infos)")
    case None
    with f have "find (\<lambda>bInfo. tokenRef bInfo = token') (map snd infos') = None" by simp
    with None m show ?thesis by (simp add: tokenEntry_def)
  next
    case (Some i)
    with f obtain i' where
      "find (\<lambda>bInfo. tokenRef bInfo = token') (map snd infos') = Some i'"
      and "fullUsername i' = fullUsername i"
      by (cases "find (\<lambda>bInfo. tokenRef bInfo = token') (map snd infos')") auto
    with Some m show ?thesis by (simp add: tokenEntry_def)
  qed
qed

lemma tokenEntries_view:
  "map (token_view infos) tokens = map (token_view infos') tokens' \<Longrightarrow>
   tokenEntries infos index tokens = tokenEntries infos' index tokens'"
proof (induction tokens arbitrary: tokens' index)
  case Nil
  then show ?case by simp
next
  case (Cons t ts)
  then obtain t' ts' where split: "tokens' = t' # ts'"
    and hd: "token_view infos t = token_view infos' t'"
    and tl: "map (token_view infos) ts = map (token_view infos') ts'"
    by (cases tokens') auto
  from hd have "tokenEntry infos index t = tokenEntry infos' index t'"
    by (rule tokenEntry_view)
  moreover from tl have "tokenEntries infos (index + 1) ts = tokenEntries infos' (index + 1) ts'"
    by (rule Cons.IH)
  ultimately show ?case by (simp add: split)
qed

lemma keyEntry_view:
  assumes "key_view limits key = key_view limits' key'"
  shows "keyEntry clock limits index key tick = keyEntry clock limits' index key' tick"
  using assms by (simp add: key_view_def keyEntry_def)

lemma keyEntries_view:
  "map (key_view limits) keys = map (key_view limits') keys' \<Longrightarrow>
   keyEntries clock limits index keys tick = keyEntries clock limits' index keys' tick"
proof (induction keys arbitrary: keys' index tick)
  case Nil
  then show ?case by simp
next
  case (Cons k ks)
  then obtain k' ks' where split: "keys' = k' # ks'"
    and hd: "key_view limits k = key_view limits' k'"
    and tl: "map (key_view limits) ks = map (key_view limits') ks'"
    by (cases keys') auto
  from hd have "keyEntry clock limits index k tick = keyEntry clock limits' index k' tick"
    by (rule keyEntry_view)
  moreover from tl have "keyEntries clock limits (index + 1) ks t
                       = keyEntries clock limits' (index + 1) ks' t" for t
    by (rule Cons.IH)
  ultimately show ?case by (simp add: split split: prod.splits)
qed

lemma tokensSection_view:
  assumes "map (token_view infos) tokens = map (token_view infos') tokens'"
      and "length infos = length infos'"
  shows "tokensSection infos tokens = tokensSection infos' tokens'"
proof -
  from assms(1) have "length tokens = length tokens'"
    by (rule map_eq_imp_length_eq)
  with assms tokenEntries_view [OF assms(1), of 0] show ?thesis
    by (simp add: tokensSection_def Let_def)
qed

lemma keysSection_view:
  assumes "map (key_view limits) keys = map (key_view limits') keys'"
  shows "keysSection clock limits keys = keysSection clock limits' keys'"
proof -
  from assms have "length keys = length keys'"
    by (rule map_eq_imp_length_eq)
  with keyEntries_view [OF assms, of clock 0 0] show ?thesis
    by (simp add: keysSection_def)
qed

text \<open>
  Claim C1, as amended. The payload that the \<open>statusUpdate\<close> handler hands to the
  status box carries the token list and the key list as the bot logic returns them; the
  masking is done by the status box when it formats the payload. What the status box
  then holds depends on a token only through its masked form and the username found for
  it, and on a key only through its masked form and its cooldown time: two states of the
  bot logic that agree on these (and on the number of bot-info records, the channels and
  the running flag) give the same status box.
\<close>

theorem status_box_shows_masked_form_only:
  assumes "map (token_view infos) tokens = map (token_view infos') tokens'"
      and "length infos = length infos'"
      and "map (key_view limits) keys = map (key_view limits') keys'"
      and "getBotInfos logic = Some infos" and "getBotInfos logic' = Some infos'"
      and "getDiscordTokens logic = Some tokens" and "getDiscordTokens logic' = Some tokens'"
      and "getGoogleApiKeys logic = Some keys" and "getGoogleApiKeys logic' = Some keys'"
      and "getRateLimitedKeys logic = Some limits" and "getRateLimitedKeys logic' = Some limits'"
      and "getChannelDetails logic' = getChannelDetails logic"
      and "getChannelIds logic' = getChannelIds logic"
      and "isRunningStatus logic' = isRunningStatus logic"
  shows "discordTokens (gather_statusData logic) = Some tokens
       \<and> googleApiKeys (gather_statusData logic) = Some keys
       \<and> statusBox (on_statusUpdate clock logic ui)
           = formatStatusContent clock (gather_statusData logic)
       \<and> on_statusUpdate clock logic ui = on_statusUpdate clock logic' ui"
proof -
  have t: "tokensSection infos tokens = tokensSection infos' tokens'"
    using assms(1,2) by (rule tokensSection_view)
  have k: "keysSection clock limits keys = keysSection clock limits' keys'"
    using assms(3) by (rule keysSection_view)
  have "formatStatusContent clock (gather_statusData logic)
      = formatStatusContent clock (gather_statusData logic')"
    using t k assms(4-14)
    by (simp add: formatStatusContent_def gather_statusData_def or_default_def)
  then show ?thesis
    using assms(6,8) by (simp add: on_statusUpdate_def updateStatus_def gather_statusData_def)
qed

theorem status_box_shows_masked_form_only_witness:
  "statusBox (on_statusUpdate (\<lambda>n. 1000 + int n)
     \<lparr>getBotInfos = Some [], getChannelDetails = None,
      getDiscordTokens = Some [''MTIzNDU2Nzg5MDEy.AAAA.secret-one''],
      getGoogleApiKeys = Some [''AIzaSyA-first-key-0001''], getChannelIds = None,
      getRateLimitedKeys = Some Map.empty, isRunningStatus = Some True\<rparr>
     \<lparr>statusBox = ''Initializing...''\<rparr>)
   = statusBox (on_statusUpdate (\<lambda>n. 1000 + int n)
     \<lparr>getBotInfos = Some [], getChannelDetails = None,
      getDiscordTokens = Some [''MTIzNPQRSTUVWXYZ-one''],
      getGoogleApiKeys = Some [''AIzaS/other/0001''], getChannelIds = None,
      getRateLimitedKeys = Some Map.empty, isRunningStatus = Some True\<rparr>
     \<lparr>statusBox = ''Initializing...''\<rparr>)"
  using status_box_shows_masked_form_only
    [where infos = "[]" and infos' = "[]"
       and tokens = "[''MTIzNDU2Nzg5MDEy.AAAA.secret-one'']" and tokens' = "[''MTIzNPQRSTUVWXYZ-one'']"
       and keys = "[''AIzaSyA-first-key-0001'']" and keys' = "[''AIzaS/other/0001'']"
       and limits = Map.empty and limits' = Map.empty
       and clock = "\<lambda>n. 1000 + int n" and ui = "\<lparr>statusBox = ''Initializing...''\<rparr>"
       and logic = "\<lparr>getBotInfos = Some [], getChannelDetails = None,
      getDiscordTokens = Some [''MTIzNDU2Nzg5MDEy.AAAA.secret-one''],
      getGoogleApiKeys = Some [''AIzaSyA-first-key-0001''], getChannelIds = None,
      getRateLimitedKeys = Some Map.empty, isRunningStatus = Some True\<rparr>"
       and logic' = "\<lparr>getBotInfos = Some [], getChannelDetails = None,
      getDiscordTokens = Some [''MTIzNPQRSTUVWXYZ-one''],
      getGoogleApiKeys = Some [''AIzaS/other/0001''], getChannelIds = None,
      getRateLimitedKeys = Some Map.empty, isRunningStatus = Some True\<rparr>"]
  by (simp add: token_view_def key_view_def masked_eq)

text \<open>
  The claim as stated fails: the payload handed to \<open>ui.updateStatus\<close> holds the token
  and the key themselves, not their masked forms.
\<close>

theorem raw_secrets_in_status_payload:
  "discordTokens (gather_statusData
     \<lparr>getBotInfos = Some [], getChannelDetails = None,
      getDiscordTokens = Some [''MTIzNDU2Nzg5MDEy.AAAA.secret-one''],
      getGoogleApiKeys = Some [''AIzaSyA-first-key-0001''], getChannelIds = None,
      getRateLimitedKeys = Some Map.empty, isRunningStatus = Some True\<rparr>)
     = Some [''MTIzNDU2Nzg5MDEy.AAAA.secret-one'']
   \<and> googleApiKeys (gather_statusData
     \<lparr>getBotInfos = Some [], getChannelDetails = None,
      getDiscordTokens = Some [''MTIzNDU2Nzg5MDEy.AAAA.secret-one''],
      getGoogleApiKeys = Some [''AIzaSyA-first-key-0001''], getChannelIds = None,
      getRateLimitedKeys = Some Map.empty, isRunningStatus = Some True\<rparr>)
     = Some [''AIzaSyA-first-key-0001'']
   \<and> masked ''MTIzNDU2Nzg5MDEy.AAAA.secret-one'' = ''MTIzN...-one''
   \<and> masked ''AIzaSyA-first-key-0001'' = ''AIzaS...0001''"
  by (simp add: gather_statusData_def masked_eq)

section \<open>Running the client: the combinators\<close>

lemma io_bind_Returned: "io_bind (Returned v, tr) f = (case f v of (r, tr') \<Rightarrow> (r, tr @ tr'))"
  by (simp add: io_bind_def)

lemma io_bind_Thrown: "io_bind (Thrown e, tr) f = (Thrown e, tr)"
  by (simp add: io_bind_def)

lemma io_bind_return: "io_bind (io_return v) f = f v"
  by (simp add: io_bind_def io_return_def split: prod.splits)

lemma io_bind_emit: "io_bind (io_emit ev) f = (case f () of (r, tr) \<Rightarrow> (r, ev # tr))"
  by (simp add: io_bind_def io_emit_def)

lemma try_catch_Returned: "try_catch (Returned v, tr) h = (Returned v, tr)"
  by (simp add: try_catch_def)

lemma try_catch_Thrown: "try_catch (Thrown e, tr) h = (case h e of (r, tr') \<Rightarrow> (r, tr @ tr'))"
  by (simp add: try_catch_def)

lemma await_axios_Resolved: "axios req = Resolved resp \<Longrightarrow> await_axios axios req = (Returned resp, [Sent req])"
  by (simp add: await_axios_def)

lemma await_axios_Rejected: "axios req = Rejected err \<Longrightarrow> await_axios axios req = (Thrown err, [Sent req])"
  by (simp add: await_axios_def)

lemmas io_simps = io_bind_Returned io_bind_Thrown io_bind_return io_bind_emit
  try_catch_Returned try_catch_Thrown await_axios_Resolved await_axios_Rejected
  io_return_def io_of_def io_emit_def

section \<open>What each Discord operation returns and does\<close>

lemma fetchMessages_eq:
  "fetchMessages axios channelId token =
     (case axios (fetch_request channelId token) of
        Resolved resp \<Rightarrow> (Returned (data resp), [Sent (fetch_request channelId token)])
      | Rejected err \<Rightarrow>
          (Returned Null,
           [Sent (fetch_request channelId token),
            Console ConsoleError
              (''[API Error] Failed to fetch messages for channel '' @ channelId @ '':'')
              [error_detail err]]))"
  by (cases "axios (fetch_request channelId token)")
     (simp_all add: fetchMessages_def fetch_request_def discord_request_def Let_def io_simps)

lemma deleteMessage_eq:
  "deleteMessage axios channelId messageId token =
     (case axios (delete_request channelId messageId token) of
        Resolved resp \<Rightarrow> (Returned (Bool True), [Sent (delete_request channelId messageId token)])
      | Rejected err \<Rightarrow>
          (Returned (Bool False),
           [Sent (delete_request channelId messageId token),
            Console ConsoleError
              (''[API Error] Failed to delete message '' @ messageId @ '' in channel ''
               @ channelId @ '':'')
              [error_detail err]]))"
  by (cases "axios (delete_request channelId messageId token)")
     (simp_all add: deleteMessage_def delete_request_def discord_request_def Let_def io_simps)

lemma getBotInfo_eq:
  "getBotInfo axios token =
     (case axios (botinfo_request token) of
        Resolved resp \<Rightarrow> (Returned (data resp), [Sent (botinfo_request token)])
      | Rejected err \<Rightarrow>
          (Returned Null,
           [Sent (botinfo_request token),
            Console ConsoleError
              (''[API Error] Failed to fetch bot info for token '' @ substring token 0 5 @ ''...:'')
              [error_detail err]]))"
  by (cases "axios (botinfo_request token)")
     (simp_all add: getBotInfo_def botinfo_request_def discord_request_def Let_def io_simps)

lemma sendMessage_resolved:
  "axios (send_request channelId content token replyToMessageId) = Resolved resp \<Longrightarrow>
   sendMessage eng axios channelId content token replyToMessageId =
     (Returned (data resp), [Sent (send_request channelId content token replyToMessageId)])"
  by (simp add: sendMessage_def send_request_def discord_request_def Let_def io_simps)

lemma sendMessage_rejected:
  assumes "axios (send_request channelId content token replyToMessageId) = Rejected err"
  shows "\<exists>warnings.
     sendMessage eng axios channelId content token replyToMessageId =
       ((if truthy (error_retry_after err)
         then (case js_to_text eng (error_retry_after err) of
                 Returned s \<Rightarrow> Returned Null
               | Thrown e \<Rightarrow> Thrown e)
         else Returned Null),
        Sent (send_request channelId content token replyToMessageId)
        # Console ConsoleError
            (''[API Error] Failed to send message to channel '' @ channelId @ '':'')
            [error_detail err]
        # warnings)
     \<and> (\<forall>r. Sent r \<notin> set warnings)"
proof (cases "truthy (error_retry_after err)")
  case False
  with assms show ?thesis
    by (simp add: sendMessage_def send_request_def discord_request_def Let_def io_simps)
next
  case True
  show ?thesis
  proof (cases "js_to_text eng (error_retry_after err)")
    case (Returned s)
    with True assms show ?thesis
      by (simp add: sendMessage_def send_request_def discord_request_def Let_def io_simps)
  next
    case (Thrown e)
    with True assms show ?thesis
      by (simp add: sendMessage_def send_request_def discord_request_def Let_def io_simps)
  qed
qed

lemma sendMessage_rejected_value:
  assumes "axios (send_request channelId content token replyToMessageId) = Rejected err"
  shows "fst (sendMessage eng axios channelId content token replyToMessageId) =
           (if truthy (error_retry_after err)
            then (case js_to_text eng (error_retry_after err) of
                    Returned s \<Rightarrow> Returned Null
                  | Thrown e \<Rightarrow> Thrown e)
            else Returned Null)"
  using assms sendMessage_rejected [of axios channelId content token replyToMessageId err eng]
  by auto

lemma getChannelInfo_rejected:
  "axios (channel_request channelId token) = Rejected err \<Longrightarrow>
   getChannelInfo eng axios channelId token =
     (Returned Null,
      [Sent (channel_request channelId token),
       Console ConsoleError
         (''[API Error] Failed to fetch channel info for '' @ channelId @ '':'')
         [error_detail err]])"
  by (simp add: getChannelInfo_def channel_request_def discord_request_def Let_def io_simps)

lemma map_of_put_field: "map_of (put_field k v ps) k = Some v"
  by (induction ps) auto

lemma get_prop_put_field: "get_prop (Obj (put_field k v ps)) k = Returned v"
  by (simp add: map_of_put_field)

lemma truthy_js_or: "truthy b \<Longrightarrow> truthy (js_or a b)"
  by (simp add: js_or_def)

lemma truthy_guild_name_for: "truthy (guild_name_for axios token guild_id guild_id_text)"
  by (auto simp: guild_name_for_def truthy_js_or split: http_result.splits outcome.splits)

lemma getChannelInfo_unprintable:
  assumes "axios (channel_request channelId token) = Resolved resp"
      and "get_prop (data resp) ''guild_id'' = Returned gid"
      and "truthy gid"
      and "js_to_text eng gid = Thrown e"
  shows "fst (getChannelInfo eng axios channelId token) = Returned Null"
  using assms
  by (simp add: getChannelInfo_def channel_request_def discord_request_def Let_def io_simps)

lemma getChannelInfo_unreadable:
  assumes "axios (channel_request channelId token) = Resolved resp"
      and "get_prop (data resp) ''guild_id'' = Thrown e"
  shows "fst (getChannelInfo eng axios channelId token) = Returned Null"
  using assms
  by (simp add: getChannelInfo_def channel_request_def discord_request_def Let_def io_simps)

lemma getChannelInfo_direct:
  assumes "axios (channel_request channelId token) = Resolved resp"
      and "get_prop (data resp) ''guild_id'' = Returned gid"
      and "\<not> truthy gid"
  shows "fst (getChannelInfo eng axios channelId token)
       = (case set_prop (data resp) ''guild_name'' (Str ''Direct Message'') of
            Returned v \<Rightarrow> Returned v
          | Thrown e \<Rightarrow> Returned Null)"
  using assms
  by (cases "set_prop (data resp) ''guild_name'' (Str ''Direct Message'')")
     (simp_all add: getChannelInfo_def channel_request_def discord_request_def Let_def io_simps)

lemma getChannelInfo_object:
  assumes "axios (channel_request channelId token) = Resolved resp"
      and "data resp = Obj props"
      and "truthy (guild_id_of props) \<longrightarrow> js_to_text eng (guild_id_of props) = Returned guild_id_text"
  shows "fst (getChannelInfo eng axios channelId token)
       = Returned (Obj (put_field ''guild_name''
            (guild_name_for axios token (guild_id_of props) guild_id_text) props))"
proof -
  define gid where "gid = guild_id_of props"
  have read: "get_prop (data resp) ''guild_id'' = Returned gid"
    using assms(2) by (simp add: gid_def guild_id_of_def split: option.splits)
  show ?thesis
  proof (cases "truthy gid")
    case False
    with assms(1,2) read show ?thesis
      by (simp add: getChannelInfo_def channel_request_def discord_request_def Let_def io_simps
          guild_name_for_def gid_def [symmetric])
  next
    case True
    with assms(3) have printed: "js_to_text eng gid = Returned guild_id_text"
      by (simp add: gid_def)
    show ?thesis
    proof (cases "axios (guild_request guild_id_text token)")
      case (Rejected e)
      with True printed assms(1,2) read show ?thesis
        by (simp add: getChannelInfo_def channel_request_def guild_request_def discord_request_def
            Let_def io_simps guild_name_for_def gid_def [symmetric])
    next
      case (Resolved guildResponse)
      show ?thesis
      proof (cases "get_prop (data guildResponse) ''name''")
        case (Returned n)
        with Resolved True printed assms(1,2) read show ?thesis
          by (simp add: getChannelInfo_def channel_request_def guild_request_def discord_request_def
              Let_def io_simps guild_name_for_def gid_def [symmetric])
      next
        case (Thrown e)
        with Resolved True printed assms(1,2) read show ?thesis
          by (simp add: getChannelInfo_def channel_request_def guild_request_def discord_request_def
              Let_def io_simps guild_name_for_def gid_def [symmetric])
      qed
    qed
  qed
qed

section \<open>The text generation operation\<close>

lemma join_texts_Thrown: "join_texts ts = Thrown e \<Longrightarrow> Thrown e \<in> set ts"
  by (induction ts rule: join_texts.induct) (auto split: outcome.splits)

lemma element_size: "x \<in> set xs \<Longrightarrow> size x < size (Arr xs ps)"
  by (induction xs) auto

lemma js_to_text_Thrown: "js_to_text eng v = Thrown e \<Longrightarrow> e = not_primitive"
proof (induction "size v" arbitrary: v rule: less_induct)
  case less
  show ?case
  proof (cases v)
    case (Arr xs ps)
    show ?thesis
    proof (cases "''toString'' \<in> fst ` set ps \<or> ''join'' \<in> fst ` set ps")
      case True
      with Arr less.prems show ?thesis by (auto split: if_splits)
    next
      case False
      with Arr less.prems have
        "join_texts (map (\<lambda>x. case x of
                          Undefined \<Rightarrow> Returned []
                        | Null \<Rightarrow> Returned []
                        | _ \<Rightarrow> js_to_text eng x) xs) = Thrown e"
        by simp
      then have
        "Thrown e \<in> set (map (\<lambda>x. case x of
                          Undefined \<Rightarrow> Returned []
                        | Null \<Rightarrow> Returned []
                        | _ \<Rightarrow> js_to_text eng x) xs)"
        by (rule join_texts_Thrown)
      then obtain x where x: "x \<in> set xs"
        and thrown: "(case x of Undefined \<Rightarrow> Returned [] | Null \<Rightarrow> Returned []
                      | _ \<Rightarrow> js_to_text eng x) = Thrown e"
        by auto
      from thrown have "js_to_text eng x = Thrown e"
        by (cases x) simp_all
      moreover from x have "size x < size v"
        unfolding Arr by (rule element_size)
      ultimately show ?thesis by (rule less.hyps [rotated])
    qed
  qed (insert less.prems, simp_all split: if_splits)
qed

lemma js_to_text_Thrown_response: "js_to_text eng v = Thrown e \<Longrightarrow> error_response e = None"
  by (drule js_to_text_Thrown) (simp add: not_primitive_def)

lemma js_gt_zero_Thrown:
  assumes "js_gt_zero eng v = Thrown e"
  shows "error_response e = None"
proof (cases v)
  case (Arr xs ps)
  with assms have "js_to_text eng (Arr xs ps) = Thrown e"
    by (simp split: outcome.splits del: js_to_text.simps)
  then show ?thesis by (rule js_to_text_Thrown_response)
qed (insert assms, auto simp: not_primitive_def split: if_splits)

lemma get_prop_Thrown: "get_prop v k = Thrown e \<Longrightarrow> error_response e = None"
  by (cases v) (auto split: if_splits option.splits)

lemma read_path_Thrown: "read_path v ks = Thrown e \<Longrightarrow> error_response e = None"
proof (induction ks arbitrary: v)
  case Nil
  then show ?case by simp
next
  case (Cons k ks)
  from Cons.prems show ?case
    by (cases "get_prop v k") (auto simp: obind_def dest: get_prop_Thrown Cons.IH)
qed

lemma call_trim_Thrown: "call_trim v = Thrown e \<Longrightarrow> error_response e = None"
  by (cases v) auto

lemma has_candidate_parts_Thrown:
  "has_candidate_parts eng d = Thrown e \<Longrightarrow> error_response e = None"
  unfolding has_candidate_parts_def
  by (auto simp: obind_def split: outcome.splits if_splits dest: get_prop_Thrown js_gt_zero_Thrown)

lemma trimmed_text_Thrown:
  "obind (read_path d ks) call_trim = Thrown e \<Longrightarrow> error_response e = None"
  by (auto simp: obind_def split: outcome.splits dest: read_path_Thrown call_trim_Thrown)



lemma generateGeminiReply_valid:
  assumes "lang = ''id'' \<or> lang = ''en''"
  shows "generateGeminiReply eng axios userMessage apiKey (Some lang) =
           try_catch
             (io_bind (await_axios axios (gemini_request apiKey lang userMessage))
                (gemini_on_response eng))
             (gemini_on_error apiKey)"
  using assms
  by (auto simp: generateGeminiReply_def gemini_request_def gemini_prompt_def Let_def)

lemma gemini_on_error_eq:
  "gemini_on_error apiKey err =
     (if rate_limited_error err
      then (Returned (Str ''RATE_LIMITED''),
            [Console ConsoleWarn
               (''[API Warn] Google API key rate limited (429). Key: '' @ substring apiKey 0 5
                @ ''...'') []])
      else (Returned Null,
            [Console ConsoleError ''[API Error] Failed to generate Gemini reply:''
               [error_detail err]]))"
  by (simp add: gemini_on_error_def rate_limited_error_def io_simps)

lemma gemini_on_response_cases:
  "(\<exists>tr. gemini_on_response eng resp = (Returned (reply_of_body eng (data resp)), tr))
   \<or> (\<exists>e tr. gemini_on_response eng resp = (Thrown e, tr) \<and> error_response e = None
          \<and> reply_of_body eng (data resp) = Null)"
proof (cases "has_candidate_parts eng (data resp)")
  case (Thrown e)
  then have "error_response e = None" by (rule has_candidate_parts_Thrown)
  with Thrown show ?thesis
    by (simp add: gemini_on_response_def reply_of_body_def io_simps)
next
  case usable: (Returned usable)
  show ?thesis
  proof (cases usable)
    case True
    show ?thesis
    proof (cases "obind (read_path (data resp)
                    [''candidates'', ''0'', ''content'', ''parts'', ''0'', ''text'']) call_trim")
      case (Returned v)
      with usable True show ?thesis
        by (simp add: gemini_on_response_def reply_of_body_def io_simps)
    next
      case (Thrown e)
      then have "error_response e = None" by (rule trimmed_text_Thrown)
      with Thrown usable True show ?thesis
        by (simp add: gemini_on_response_def reply_of_body_def io_simps)
    qed
  next
    case False
    show ?thesis
    proof (cases "get_prop (data resp) ''promptFeedback''")
      case feedback: (Returned feedback)
      show ?thesis
      proof (cases "js_to_text eng (opt_prop feedback ''blockReason'')")
        case (Returned blockReason)
        with feedback usable False show ?thesis
          by (simp add: gemini_on_response_def reply_of_body_def io_simps)
      next
        case (Thrown e)
        then have "error_response e = None" by (rule js_to_text_Thrown_response)
        with Thrown feedback usable False show ?thesis
          by (simp add: gemini_on_response_def reply_of_body_def io_simps)
      qed
    next
      case (Thrown e)
      then have "error_response e = None" by (rule get_prop_Thrown)
      with Thrown usable False show ?thesis
        by (simp add: gemini_on_response_def reply_of_body_def io_simps)
    qed
  qed
qed

lemma generateGeminiReply_invalid:
  assumes "lang \<noteq> ''id''" and "lang \<noteq> ''en''"
  shows "generateGeminiReply eng axios userMessage apiKey (Some lang) =
           (Returned Null,
            [Console ConsoleError (''[API Error] Invalid prompt language: '' @ lang) []])"
  using assms by (simp add: generateGeminiReply_def Let_def io_simps)

lemma generateGeminiReply_default:
  "generateGeminiReply eng axios userMessage apiKey None
   = generateGeminiReply eng axios userMessage apiKey (Some ''id'')"
  by (simp add: generateGeminiReply_def)

lemma generateGeminiReply_rejected:
  assumes "lang = ''id'' \<or> lang = ''en''"
      and "axios (gemini_request apiKey lang userMessage) = Rejected err"
  shows "fst (generateGeminiReply eng axios userMessage apiKey (Some lang)) =
           (if rate_limited_error err then Returned (Str ''RATE_LIMITED'') else Returned Null)"
  using assms(2)
  by (simp add: generateGeminiReply_valid [OF assms(1)] gemini_on_error_eq io_simps)

lemma generateGeminiReply_resolved:
  assumes "lang = ''id'' \<or> lang = ''en''"
      and "axios (gemini_request apiKey lang userMessage) = Resolved resp"
  shows "fst (generateGeminiReply eng axios userMessage apiKey (Some lang))
         = Returned (reply_of_body eng (data resp))"
proof -
  from gemini_on_response_cases [of eng resp] show ?thesis
  proof
    assume "\<exists>tr. gemini_on_response eng resp = (Returned (reply_of_body eng (data resp)), tr)"
    then obtain tr where
      "gemini_on_response eng resp = (Returned (reply_of_body eng (data resp)), tr)" ..
    with assms(2) show ?thesis
      by (simp add: generateGeminiReply_valid [OF assms(1)] io_simps)
  next
    assume "\<exists>e tr. gemini_on_response eng resp = (Thrown e, tr) \<and> error_response e = None
              \<and> reply_of_body eng (data resp) = Null"
    then obtain e tr where run: "gemini_on_response eng resp = (Thrown e, tr)"
      and plain: "error_response e = None" and null: "reply_of_body eng (data resp) = Null"
      by blast
    from plain have "gemini_on_error apiKey e =
        (Returned Null,
         [Console ConsoleError ''[API Error] Failed to generate Gemini reply:'' [error_detail e]])"
      by (simp add: gemini_on_error_eq rate_limited_error_def)
    with run null assms(2) show ?thesis
      by (simp add: generateGeminiReply_valid [OF assms(1)] io_simps)
  qed
qed

lemma try_await_trace:
  "\<exists>log. snd (try_catch (io_bind (await_axios axios req) f) h) = Sent req # log"
proof (cases "axios req")
  case (Rejected e)
  then show ?thesis
    by (simp add: io_simps split: prod.splits)
next
  case (Resolved resp)
  obtain r tr where f: "f resp = (r, tr)" by (cases "f resp")
  show ?thesis
  proof (cases r)
    case (Returned v)
    with Resolved f show ?thesis by (simp add: io_simps)
  next
    case (Thrown e)
    with Resolved f show ?thesis by (simp add: io_simps split: prod.splits)
  qed
qed

lemma generateGeminiReply_sends:
  assumes "lang = ''id'' \<or> lang = ''en''"
  shows "\<exists>log. snd (generateGeminiReply eng axios userMessage apiKey (Some lang))
           = Sent (gemini_request apiKey lang userMessage) # log"
  by (simp only: generateGeminiReply_valid [OF assms] try_await_trace)

text \<open>
  Claim C9. For every \<open>promptLanguage\<close> other than \<open>en\<close> and \<open>id\<close>,
  \<open>generateGeminiReply\<close> returns \<open>null\<close> and its run holds no request. When the
  argument is omitted the run is the one for \<open>id\<close>, which does send the request with
  the Indonesian prompt.
\<close>

theorem invalid_language_sends_nothing:
  assumes "lang \<noteq> ''en''" and "lang \<noteq> ''id''"
  shows "fst (generateGeminiReply eng axios userMessage apiKey (Some lang)) = Returned Null
       \<and> (\<forall>r. Sent r \<notin> set (snd (generateGeminiReply eng axios userMessage apiKey (Some lang))))
       \<and> generateGeminiReply eng axios userMessage apiKey None
           = generateGeminiReply eng axios userMessage apiKey (Some ''id'')
       \<and> (\<exists>log. snd (generateGeminiReply eng axios userMessage apiKey None)
             = Sent (gemini_request apiKey ''id'' userMessage) # log)"
proof -
  have invalid: "generateGeminiReply eng axios userMessage apiKey (Some lang) =
           (Returned Null,
            [Console ConsoleError (''[API Error] Invalid prompt language: '' @ lang) []])"
    using assms by (simp add: generateGeminiReply_invalid)
  have default: "generateGeminiReply eng axios userMessage apiKey None
           = generateGeminiReply eng axios userMessage apiKey (Some ''id'')"
    by (rule generateGeminiReply_default)
  have "\<exists>log. snd (generateGeminiReply eng axios userMessage apiKey (Some ''id''))
           = Sent (gemini_request apiKey ''id'' userMessage) # log"
    by (rule generateGeminiReply_sends) simp
  with invalid default show ?thesis by simp
qed

theorem invalid_language_sends_nothing_witness:
  "''fr'' \<noteq> ''en'' \<and> ''fr'' \<noteq> ''id''
   \<and> generateGeminiReply \<lparr>to_text = (\<lambda>v. []), gt_zero = (\<lambda>v. False)\<rparr>
        (\<lambda>r. Resolved \<lparr>status = 200, data = Null\<rparr>) ''hello'' ''AIzaSyA-first-key-0001'' (Some ''fr'')
      = (Returned Null, [Console ConsoleError ''[API Error] Invalid prompt language: fr'' []])"
  using invalid_language_sends_nothing
    [of "''fr''" "\<lparr>to_text = (\<lambda>v. []), gt_zero = (\<lambda>v. False)\<rparr>"
        "\<lambda>r. Resolved \<lparr>status = 200, data = Null\<rparr>" "''hello''" "''AIzaSyA-first-key-0001''"]
  by (simp add: generateGeminiReply_invalid)

section \<open>The payload of sendMessage\<close>

lemma sendMessage_trace:
  "\<exists>log. snd (sendMessage eng axios channelId content token replyToMessageId)
           = Sent (send_request channelId content token replyToMessageId) # log
         \<and> (\<forall>r. Sent r \<notin> set log)"
proof (cases "axios (send_request channelId content token replyToMessageId)")
  case (Resolved resp)
  then show ?thesis by (simp add: sendMessage_resolved)
next
  case (Rejected err)
  then show ?thesis
    using sendMessage_rejected [of axios channelId content token replyToMessageId err eng] by auto
qed

lemma send_payload_cases:
  "send_payload content None = Obj [(''content'', Str content)]"
  "send_payload content (Some []) = Obj [(''content'', Str content)]"
  "r \<noteq> [] \<Longrightarrow> send_payload content (Some r)
     = Obj [(''content'', Str content), (''message_reference'', Obj [(''message_id'', Str r)])]"
  by (simp_all add: send_payload_def)

text \<open>
  Claim C7, as amended. \<open>sendMessage\<close> posts one request and no other; its body carries
  the given content; the body has a \<open>message_reference\<close> with the given
  \<open>message_id\<close> when \<open>replyToMessageId\<close> is a non-empty string, and no
  \<open>message_reference\<close> when it is omitted, \<open>null\<close> or the empty string.
\<close>

theorem sendMessage_payload:
  "(\<exists>log. snd (sendMessage eng axios channelId content token replyToMessageId)
           = Sent (send_request channelId content token replyToMessageId) # log
         \<and> (\<forall>r. Sent r \<notin> set log))
   \<and> req_body (send_request channelId content token replyToMessageId)
       = Some (send_payload content replyToMessageId)
   \<and> get_prop (send_payload content replyToMessageId) ''content'' = Returned (Str content)
   \<and> send_payload content None = Obj [(''content'', Str content)]
   \<and> send_payload content (Some []) = Obj [(''content'', Str content)]
   \<and> (\<forall>r. r \<noteq> [] \<longrightarrow>
         send_payload content (Some r)
         = Obj [(''content'', Str content), (''message_reference'', Obj [(''message_id'', Str r)])])"
proof -
  have "get_prop (send_payload content replyToMessageId) ''content'' = Returned (Str content)"
    by (cases replyToMessageId) (simp_all add: send_payload_def Let_def)
  moreover have "req_body (send_request channelId content token replyToMessageId)
       = Some (send_payload content replyToMessageId)"
    by (simp add: send_request_def discord_request_def)
  ultimately show ?thesis
    using sendMessage_trace [of eng axios channelId content token replyToMessageId]
    by (simp add: send_payload_cases)
qed

theorem sendMessage_payload_witness:
  "snd (sendMessage \<lparr>to_text = (\<lambda>v. []), gt_zero = (\<lambda>v. False)\<rparr>
          (\<lambda>r. Resolved \<lparr>status = 200, data = Obj [(''id'', Str ''9001'')]\<rparr>)
          ''1100'' ''hello'' ''MTIzNDU2Nzg5MDEy.AAAA'' (Some ''9000''))
   = [Sent \<lparr>req_verb = POST, req_url = ''https://discord.com/api/v9/channels/1100/messages'',
            req_headers = createDiscordHeaders ''MTIzNDU2Nzg5MDEy.AAAA'',
            req_body = Some (Obj [(''content'', Str ''hello''),
                                  (''message_reference'', Obj [(''message_id'', Str ''9000'')])])\<rparr>]"
  using sendMessage_payload
    [of "\<lparr>to_text = (\<lambda>v. []), gt_zero = (\<lambda>v. False)\<rparr>"
        "\<lambda>r. Resolved \<lparr>status = 200, data = Obj [(''id'', Str ''9001'')]\<rparr>"
        "''1100''" "''hello''" "''MTIzNDU2Nzg5MDEy.AAAA''" "Some ''9000''"]
  by (simp add: sendMessage_resolved send_request_def discord_request_def DISCORD_API_BASE_def)

text \<open>
  The claim as stated fails: the empty string is a \<open>replyToMessageId\<close> that is not
  \<open>null\<close>, and the payload posted for it has no \<open>message_reference\<close>.
\<close>

theorem empty_reply_id_gives_no_reference:
  "snd (sendMessage \<lparr>to_text = (\<lambda>v. []), gt_zero = (\<lambda>v. False)\<rparr>
          (\<lambda>r. Resolved \<lparr>status = 200, data = Obj [(''id'', Str ''9001'')]\<rparr>)
          ''1100'' ''hello'' ''MTIzNDU2Nzg5MDEy.AAAA'' (Some []))
   = [Sent \<lparr>req_verb = POST, req_url = ''https://discord.com/api/v9/channels/1100/messages'',
            req_headers = createDiscordHeaders ''MTIzNDU2Nzg5MDEy.AAAA'',
            req_body = Some (Obj [(''content'', Str ''hello'')])\<rparr>]"
  by (simp add: sendMessage_resolved send_request_def discord_request_def DISCORD_API_BASE_def
      send_payload_def)

section \<open>The guild name in the channel metadata\<close>

text \<open>
  Claim C10, as amended. When the channel fetch resolves with a JSON object whose
  \<open>guild_id\<close>, if truthy, can be printed into the guild URL, \<open>getChannelInfo\<close> returns
  that object with \<open>guild_name\<close> set, to a truthy value: \<open>Direct Message\<close> when the
  channel has no truthy \<open>guild_id\<close>; otherwise the guild's name, \<open>Unknown Server\<close>
  when the guild has no truthy name, and \<open>Unknown Server (Error)\<close> when the guild
  lookup rejects or its body cannot be read. So a failed guild lookup never makes the
  operation fail.
\<close>

theorem getChannelInfo_guild_name_defined:
  assumes "axios (channel_request channelId token) = Resolved resp"
      and "data resp = Obj props"
      and "truthy (guild_id_of props) \<longrightarrow> js_to_text eng (guild_id_of props) = Returned guild_id_text"
  shows "let guild_id = guild_id_of props;
             lookup = axios (guild_request guild_id_text token)
         in \<exists>guild_name.
              fst (getChannelInfo eng axios channelId token)
                = Returned (Obj (put_field ''guild_name'' guild_name props))
            \<and> get_prop (Obj (put_field ''guild_name'' guild_name props)) ''guild_name''
                = Returned guild_name
            \<and> truthy guild_name
            \<and> (\<not> truthy guild_id \<longrightarrow> guild_name = Str ''Direct Message'')
            \<and> (truthy guild_id \<longrightarrow>
                 (\<forall>e. lookup = Rejected e \<longrightarrow> guild_name = Str ''Unknown Server (Error)'')
               \<and> (\<forall>guildResponse n.
                     lookup = Resolved guildResponse
                     \<and> get_prop (data guildResponse) ''name'' = Returned n
                     \<longrightarrow> guild_name = (if truthy n then n else Str ''Unknown Server''))
               \<and> (\<forall>guildResponse e.
                     lookup = Resolved guildResponse
                     \<and> get_prop (data guildResponse) ''name'' = Thrown e
                     \<longrightarrow> guild_name = Str ''Unknown Server (Error)''))"
proof -
  define guild_id where "guild_id = guild_id_of props"
  define lookup where "lookup = axios (guild_request guild_id_text token)"
  define guild_name where "guild_name = guild_name_for axios token guild_id guild_id_text"
  have result: "fst (getChannelInfo eng axios channelId token)
          = Returned (Obj (put_field ''guild_name'' guild_name props))"
    unfolding guild_name_def guild_id_def using assms by (rule getChannelInfo_object)
  have field: "get_prop (Obj (put_field ''guild_name'' guild_name props)) ''guild_name''
          = Returned guild_name"
    by (rule get_prop_put_field)
  have defined: "truthy guild_name"
    unfolding guild_name_def by (rule truthy_guild_name_for)
  have direct: "guild_name = Str ''Direct Message''" if "\<not> truthy guild_id"
    using that by (simp add: guild_name_def guild_name_for_def)
  have rejected: "guild_name = Str ''Unknown Server (Error)''"
    if "truthy guild_id" and "lookup = Rejected e" for e
    using that by (simp add: guild_name_def guild_name_for_def lookup_def)
  have named: "guild_name = (if truthy n then n else Str ''Unknown Server'')"
    if "truthy guild_id" and "lookup = Resolved guildResponse
      \<and> get_prop (data guildResponse) ''name'' = Returned n" for guildResponse n
    using that by (simp add: guild_name_def guild_name_for_def lookup_def js_or_def)
  have unreadable: "guild_name = Str ''Unknown Server (Error)''"
    if "truthy guild_id" and "lookup = Resolved guildResponse
      \<and> get_prop (data guildResponse) ''name'' = Thrown e" for guildResponse e
    using that by (simp add: guild_name_def guild_name_for_def lookup_def)
  have all: "fst (getChannelInfo eng axios channelId token)
          = Returned (Obj (put_field ''guild_name'' guild_name props))
      \<and> get_prop (Obj (put_field ''guild_name'' guild_name props)) ''guild_name''
          = Returned guild_name
      \<and> truthy guild_name
      \<and> (\<not> truthy guild_id \<longrightarrow> guild_name = Str ''Direct Message'')
      \<and> (truthy guild_id \<longrightarrow>
           (\<forall>e. lookup = Rejected e \<longrightarrow> guild_name = Str ''Unknown Server (Error)'')
         \<and> (\<forall>guildResponse n.
               lookup = Resolved guildResponse
               \<and> get_prop (data guildResponse) ''name'' = Returned n
               \<longrightarrow> guild_name = (if truthy n then n else Str ''Unknown Server''))
         \<and> (\<forall>guildResponse e.
               lookup = Resolved guildResponse
               \<and> get_prop (data guildResponse) ''name'' = Thrown e
               \<longrightarrow> guild_name = Str ''Unknown Server (Error)''))"
  proof (intro conjI impI allI)
    show "fst (getChannelInfo eng axios channelId token)
          = Returned (Obj (put_field ''guild_name'' guild_name props))"
      by (rule result)
    show "get_prop (Obj (put_field ''guild_name'' guild_name props)) ''guild_name''
          = Returned guild_name"
      by (rule field)
    show "truthy guild_name" by (rule defined)
    show "guild_name = Str ''Direct Message''" if "\<not> truthy guild_id"
      using that by (rule direct)
    show "guild_name = Str ''Unknown Server (Error)''"
      if "truthy guild_id" and "lookup = Rejected e" for e
      using that by (rule rejected)
    show "guild_name = (if truthy n then n else Str ''Unknown Server'')"
      if "truthy guild_id" and "lookup = Resolved guildResponse
        \<and> get_prop (data guildResponse) ''name'' = Returned n" for guildResponse n
      using that by (rule named)
    show "guild_name = Str ''Unknown Server (Error)''"
      if "truthy guild_id" and "lookup = Resolved guildResponse
        \<and> get_prop (data guildResponse) ''name'' = Thrown e" for guildResponse e
      using that by (rule unreadable)
  qed
  show ?thesis
    unfolding Let_def guild_id_def [symmetric] lookup_def [symmetric]
    by (rule exI [where x = guild_name]) (rule all)
qed

theorem getChannelInfo_guild_name_defined_witness:
  "fst (getChannelInfo \<lparr>to_text = (\<lambda>v. []), gt_zero = (\<lambda>v. False)\<rparr>
          (\<lambda>r. if req_url r = ''https://discord.com/api/v9/channels/1100''
                then Resolved \<lparr>status = 200,
                               data = Obj [(''name'', Str ''general''), (''guild_id'', Str ''77'')]\<rparr>
                else Rejected (AxiosError None ''ECONNRESET''))
          ''1100'' ''MTIzNDU2Nzg5MDEy.AAAA'')
   = Returned (Obj [(''name'', Str ''general''), (''guild_id'', Str ''77''),
                    (''guild_name'', Str ''Unknown Server (Error)'')])"
  using getChannelInfo_guild_name_defined
    [where axios = "\<lambda>r. if req_url r = ''https://discord.com/api/v9/channels/1100''
                then Resolved \<lparr>status = 200,
                               data = Obj [(''name'', Str ''general''), (''guild_id'', Str ''77'')]\<rparr>
                else Rejected (AxiosError None ''ECONNRESET'')"
       and channelId = "''1100''" and token = "''MTIzNDU2Nzg5MDEy.AAAA''"
       and resp = "\<lparr>status = 200,
                               data = Obj [(''name'', Str ''general''), (''guild_id'', Str ''77'')]\<rparr>"
       and props = "[(''name'', Str ''general''), (''guild_id'', Str ''77'')]"
       and guild_id_text = "''77''"
       and eng = "\<lparr>to_text = (\<lambda>v. []), gt_zero = (\<lambda>v. False)\<rparr>"]
  unfolding Let_def
  by (simp add: channel_request_def guild_request_def discord_request_def DISCORD_API_BASE_def
      guild_id_of_def)

text \<open>
  The claim as stated fails. A channel fetch that succeeds with an empty body gives the
  empty string back, which has no \<open>guild_name\<close>; one that succeeds with the body
  \<open>null\<close> gives \<open>null\<close>; and so does one whose \<open>guild_id\<close> is an object that
  cannot be printed into the guild URL.
\<close>

theorem channel_fetch_without_guild_name:
  "fst (getChannelInfo \<lparr>to_text = (\<lambda>v. []), gt_zero = (\<lambda>v. False)\<rparr>
          (\<lambda>r. Resolved \<lparr>status = 200, data = Str []\<rparr>)
          ''1100'' ''MTIzNDU2Nzg5MDEy.AAAA'')
   = Returned (Str [])
   \<and> get_prop (Str []) ''guild_name'' = Returned Undefined
   \<and> fst (getChannelInfo \<lparr>to_text = (\<lambda>v. []), gt_zero = (\<lambda>v. False)\<rparr>
          (\<lambda>r. Resolved \<lparr>status = 200, data = Null\<rparr>)
          ''1100'' ''MTIzNDU2Nzg5MDEy.AAAA'')
   = Returned Null
   \<and> fst (getChannelInfo \<lparr>to_text = (\<lambda>v. []), gt_zero = (\<lambda>v. False)\<rparr>
          (\<lambda>r. Resolved \<lparr>status = 200,
                  data = Obj [(''name'', Str ''general''),
                              (''guild_id'', Obj [(''toString'', Num 1)])]\<rparr>)
          ''1100'' ''MTIzNDU2Nzg5MDEy.AAAA'')
   = Returned Null"
proof (intro conjI)
  show "fst (getChannelInfo \<lparr>to_text = (\<lambda>v. []), gt_zero = (\<lambda>v. False)\<rparr>
          (\<lambda>r. Resolved \<lparr>status = 200, data = Str []\<rparr>)
          ''1100'' ''MTIzNDU2Nzg5MDEy.AAAA'')
   = Returned (Str [])"
    by (simp add: getChannelInfo_direct [where resp = "\<lparr>status = 200, data = Str []\<rparr>"
          and gid = Undefined] index_of_key_def)
  show "get_prop (Str []) ''guild_name'' = Returned Undefined"
    by (simp add: index_of_key_def)
  show "fst (getChannelInfo \<lparr>to_text = (\<lambda>v. []), gt_zero = (\<lambda>v. False)\<rparr>
          (\<lambda>r. Resolved \<lparr>status = 200, data = Null\<rparr>)
          ''1100'' ''MTIzNDU2Nzg5MDEy.AAAA'')
   = Returned Null"
    by (simp add: getChannelInfo_unreadable [where resp = "\<lparr>status = 200, data = Null\<rparr>"])
  show "fst (getChannelInfo \<lparr>to_text = (\<lambda>v. []), gt_zero = (\<lambda>v. False)\<rparr>
          (\<lambda>r. Resolved \<lparr>status = 200,
                  data = Obj [(''name'', Str ''general''),
                              (''guild_id'', Obj [(''toString'', Num 1)])]\<rparr>)
          ''1100'' ''MTIzNDU2Nzg5MDEy.AAAA'')
   = Returned Null"
    by (simp add: getChannelInfo_unprintable
          [where resp = "\<lparr>status = 200,
                  data = Obj [(''name'', Str ''general''),
                              (''guild_id'', Obj [(''toString'', Num 1)])]\<rparr>"
             and gid = "Obj [(''toString'', Num 1)]" and e = not_primitive])
qed

section \<open>The rate-limit value of the text generation operation\<close>

lemma decimal_0: "decimal 0 = ''0''"
  by (simp add: decimal_def decimal_onto.simps digit_char_def)

lemma index_of_key_0: "index_of_key (Suc n) ''0'' = Some 0"
proof -
  have "[0..<Suc n] = 0 # [Suc 0..<Suc n]"
    by (simp add: upt_conv_Cons del: upt_Suc)
  then show ?thesis
    by (simp add: index_of_key_def decimal_0 del: upt_Suc)
qed

lemma get_first_element: "get_prop (Arr (x # xs) ps) ''0'' = Returned x"
  by (simp add: index_of_key_0)

lemma get_array_length: "get_prop (Arr xs ps) ''length'' = Returned (Num (of_nat (length xs)))"
  by simp

lemma reply_of_body_text:
  "reply_of_body eng
     (Obj [(''candidates'',
            Arr [Obj [(''content'', Obj [(''parts'', Arr [Obj [(''text'', Str s)]] [])])]] [])])
   = Str (trim s)"
  by (simp add: reply_of_body_def has_candidate_parts_def obind_def get_first_element
      get_array_length del: get_prop.simps(6))

lemma trim_RATE_LIMITED: "trim ''RATE_LIMITED'' = ''RATE_LIMITED''"
  by (simp add: trim_def js_whitespace_def)

text \<open>
  Claim C4, at the input where the code departs from it. A response with status 200
  whose candidate text is \<open>RATE_LIMITED\<close> makes \<open>generateGeminiReply\<close> return the
  string \<open>RATE_LIMITED\<close>: the very value it returns when the service answers with
  status 429. So the rate-limited outcome is returned without any 429.
\<close>

theorem generated_text_equal_to_rate_limit_sentinel:
  "fst (generateGeminiReply eng
          (\<lambda>r. Resolved \<lparr>status = 200,
             data = Obj [(''candidates'',
                          Arr [Obj [(''content'',
                                     Obj [(''parts'', Arr [Obj [(''text'', Str ''RATE_LIMITED'')]] [])])]]
                              [])]\<rparr>)
          userMessage apiKey (Some ''en''))
     = Returned (Str ''RATE_LIMITED'')
   \<and> fst (generateGeminiReply eng
          (\<lambda>r. Rejected (AxiosError (Some \<lparr>status = 429, data = Null\<rparr>)
                           ''Request failed with status code 429''))
          userMessage apiKey (Some ''en''))
     = Returned (Str ''RATE_LIMITED'')"
  by (simp add: generateGeminiReply_resolved generateGeminiReply_rejected reply_of_body_text
      trim_RATE_LIMITED rate_limited_error_def)

section \<open>Outcomes of the six operations\<close>

lemma try_catch_returns:
  assumes "\<And>e. \<exists>v tr. h e = (Returned v, tr)"
  shows "\<exists>v. fst (try_catch body h) = Returned v"
proof -
  obtain r tr where body: "body = (r, tr)" by (cases body)
  show ?thesis
  proof (cases r)
    case (Returned v)
    with body show ?thesis by (simp add: try_catch_Returned)
  next
    case (Thrown e)
    from assms obtain v tr' where "h e = (Returned v, tr')" by blast
    with Thrown body show ?thesis by (simp add: try_catch_Thrown)
  qed
qed

lemma getChannelInfo_returns: "\<exists>v. fst (getChannelInfo eng axios channelId token) = Returned v"
  unfolding getChannelInfo_def Let_def
  by (rule try_catch_returns) (simp add: io_simps)

lemma generateGeminiReply_returns:
  "\<exists>v. fst (generateGeminiReply eng axios userMessage apiKey promptLanguage) = Returned v"
proof -
  have known: "\<exists>v. fst (generateGeminiReply eng axios userMessage apiKey (Some lang)) = Returned v"
    for lang
  proof (cases "lang = ''id'' \<or> lang = ''en''")
    case True
    have "\<exists>v. fst (try_catch
             (io_bind (await_axios axios (gemini_request apiKey lang userMessage))
                (gemini_on_response eng))
             (gemini_on_error apiKey)) = Returned v"
      by (rule try_catch_returns) (simp add: gemini_on_error_eq)
    then show ?thesis by (simp only: generateGeminiReply_valid [OF True])
  next
    case False
    then show ?thesis by (simp add: generateGeminiReply_invalid)
  qed
  show ?thesis
  proof (cases promptLanguage)
    case None
    with known [of "''id''"] show ?thesis by (simp add: generateGeminiReply_default)
  next
    case (Some lang)
    with known [of lang] show ?thesis by simp
  qed
qed

lemma fetchMessages_value:
  "fst (fetchMessages axios channelId token)
   = (case axios (fetch_request channelId token) of
        Resolved resp \<Rightarrow> Returned (data resp) | Rejected err \<Rightarrow> Returned Null)"
  by (simp add: fetchMessages_eq split: http_result.splits)

lemma deleteMessage_value:
  "fst (deleteMessage axios channelId messageId token)
   = (case axios (delete_request channelId messageId token) of
        Resolved resp \<Rightarrow> Returned (Bool True) | Rejected err \<Rightarrow> Returned (Bool False))"
  by (simp add: deleteMessage_eq split: http_result.splits)

lemma getBotInfo_value:
  "fst (getBotInfo axios token)
   = (case axios (botinfo_request token) of
        Resolved resp \<Rightarrow> Returned (data resp) | Rejected err \<Rightarrow> Returned Null)"
  by (simp add: getBotInfo_eq split: http_result.splits)

lemma sendMessage_value_resolved:
  "axios (send_request channelId content token replyToMessageId) = Resolved resp \<Longrightarrow>
   fst (sendMessage eng axios channelId content token replyToMessageId) = Returned (data resp)"
  by (simp add: sendMessage_resolved)

lemma sendMessage_value_rejected:
  assumes "axios (send_request channelId content token replyToMessageId) = Rejected err"
      and "truthy (error_retry_after err) \<longrightarrow>
             (\<exists>s. js_to_text eng (error_retry_after err) = Returned s)"
  shows "fst (sendMessage eng axios channelId content token replyToMessageId) = Returned Null"
  using assms
    sendMessage_rejected_value [of axios channelId content token replyToMessageId err eng]
  by auto





text \<open>
  Claim C6, as amended. \<open>fetchMessages\<close>, \<open>deleteMessage\<close>, \<open>getBotInfo\<close>,
  \<open>getChannelInfo\<close> and \<open>generateGeminiReply\<close> never throw, whatever the network
  answers: each returns a value. So does \<open>sendMessage\<close> when its request resolves, and
  when it rejects with a \<open>retry_after\<close> that is falsy or can be printed into the
  warning. When its request rejects, \<open>fetchMessages\<close>, \<open>sendMessage\<close> (under that
  condition), \<open>getBotInfo\<close> and \<open>getChannelInfo\<close> return \<open>null\<close>; \<open>deleteMessage\<close>
  returns \<open>false\<close> after one \<open>console.error\<close> line and nothing else;
  \<open>generateGeminiReply\<close> returns \<open>null\<close>, or the string \<open>RATE_LIMITED\<close> when the
  rejection has status 429.
\<close>

theorem api_client_never_throws:
  "(\<exists>v. fst (fetchMessages axios channelId token) = Returned v)
 \<and> (\<forall>resp. axios (send_request channelId content token replyToMessageId) = Resolved resp \<longrightarrow>
        fst (sendMessage eng axios channelId content token replyToMessageId)
        = Returned (data resp))
 \<and> (\<exists>v. fst (deleteMessage axios channelId messageId token) = Returned v)
 \<and> (\<exists>v. fst (getBotInfo axios token) = Returned v)
 \<and> (\<exists>v. fst (getChannelInfo eng axios channelId token) = Returned v)
 \<and> (\<exists>v. fst (generateGeminiReply eng axios userMessage apiKey promptLanguage) = Returned v)
 \<and> (\<forall>err. axios (fetch_request channelId token) = Rejected err \<longrightarrow>
        fst (fetchMessages axios channelId token) = Returned Null)
 \<and> (\<forall>err. axios (send_request channelId content token replyToMessageId) = Rejected err
        \<and> (truthy (error_retry_after err) \<longrightarrow>
             (\<exists>s. js_to_text eng (error_retry_after err) = Returned s))
        \<longrightarrow> fst (sendMessage eng axios channelId content token replyToMessageId) = Returned Null)
 \<and> (\<forall>err. axios (delete_request channelId messageId token) = Rejected err \<longrightarrow>
        deleteMessage axios channelId messageId token
        = (Returned (Bool False),
           [Sent (delete_request channelId messageId token),
            Console ConsoleError
              (''[API Error] Failed to delete message '' @ messageId @ '' in channel ''
               @ channelId @ '':'')
              [error_detail err]]))
 \<and> (\<forall>err. axios (botinfo_request token) = Rejected err \<longrightarrow>
        fst (getBotInfo axios token) = Returned Null)
 \<and> (\<forall>err. axios (channel_request channelId token) = Rejected err \<longrightarrow>
        fst (getChannelInfo eng axios channelId token) = Returned Null)
 \<and> (\<forall>err lang. (lang = ''id'' \<or> lang = ''en'')
        \<and> axios (gemini_request apiKey lang userMessage) = Rejected err \<longrightarrow>
        fst (generateGeminiReply eng axios userMessage apiKey (Some lang))
        = (if rate_limited_error err then Returned (Str ''RATE_LIMITED'') else Returned Null))
 \<and> (\<forall>r s. js_to_text eng (Num r) = Returned (to_text eng r) \<and> js_to_text eng (Str s) = Returned s)"
proof (intro conjI allI impI)
  show "js_to_text eng (Num r) = Returned (to_text eng r)" for r
    by simp
  show "js_to_text eng (Str s) = Returned s" for s
    by simp
  show "\<exists>v. fst (fetchMessages axios channelId token) = Returned v"
    by (cases "axios (fetch_request channelId token)") (simp_all add: fetchMessages_value)
  show "fst (sendMessage eng axios channelId content token replyToMessageId)
        = Returned (data resp)"
    if "axios (send_request channelId content token replyToMessageId) = Resolved resp" for resp
    using that by (rule sendMessage_value_resolved)
  show "\<exists>v. fst (deleteMessage axios channelId messageId token) = Returned v"
    by (cases "axios (delete_request channelId messageId token)")
       (simp_all add: deleteMessage_value)
  show "\<exists>v. fst (getBotInfo axios token) = Returned v"
    by (cases "axios (botinfo_request token)") (simp_all add: getBotInfo_value)
  show "\<exists>v. fst (getChannelInfo eng axios channelId token) = Returned v"
    by (rule getChannelInfo_returns)
  show "\<exists>v. fst (generateGeminiReply eng axios userMessage apiKey promptLanguage) = Returned v"
    by (rule generateGeminiReply_returns)
  show "fst (fetchMessages axios channelId token) = Returned Null"
    if "axios (fetch_request channelId token) = Rejected err" for err
    using that by (simp add: fetchMessages_value)
  show "fst (sendMessage eng axios channelId content token replyToMessageId) = Returned Null"
    if "axios (send_request channelId content token replyToMessageId) = Rejected err
        \<and> (truthy (error_retry_after err) \<longrightarrow>
             (\<exists>s. js_to_text eng (error_retry_after err) = Returned s))" for err
  proof -
    from that have "axios (send_request channelId content token replyToMessageId) = Rejected err"
      and "truthy (error_retry_after err) \<longrightarrow>
             (\<exists>s. js_to_text eng (error_retry_after err) = Returned s)"
      by simp_all
    then show ?thesis by (rule sendMessage_value_rejected)
  qed
  show "deleteMessage axios channelId messageId token
        = (Returned (Bool False),
           [Sent (delete_request channelId messageId token),
            Console ConsoleError
              (''[API Error] Failed to delete message '' @ messageId @ '' in channel ''
               @ channelId @ '':'')
              [error_detail err]])"
    if "axios (delete_request channelId messageId token) = Rejected err" for err
    using that by (simp add: deleteMessage_eq)
  show "fst (getBotInfo axios token) = Returned Null"
    if "axios (botinfo_request token) = Rejected err" for err
    using that by (simp add: getBotInfo_value)
  show "fst (getChannelInfo eng axios channelId token) = Returned Null"
    if "axios (channel_request channelId token) = Rejected err" for err
    using that by (simp add: getChannelInfo_rejected)
  show "fst (generateGeminiReply eng axios userMessage apiKey (Some lang))
        = (if rate_limited_error err then Returned (Str ''RATE_LIMITED'') else Returned Null)"
    if "(lang = ''id'' \<or> lang = ''en'')
        \<and> axios (gemini_request apiKey lang userMessage) = Rejected err" for err lang
    using that by (simp add: generateGeminiReply_rejected)
qed

theorem api_client_never_throws_witness:
  "deleteMessage
     (\<lambda>r. Rejected (AxiosError
             (Some \<lparr>status = 404, data = Obj [(''message'', Str ''Unknown Message'')]\<rparr>)
             ''Request failed with status code 404''))
     ''1100'' ''9000'' ''MTIzNDU2Nzg5MDEy.AAAA''
   = (Returned (Bool False),
      [Sent (delete_request ''1100'' ''9000'' ''MTIzNDU2Nzg5MDEy.AAAA''),
       Console ConsoleError ''[API Error] Failed to delete message 9000 in channel 1100:''
         [Obj [(''message'', Str ''Unknown Message'')]]])
   \<and> fst (getBotInfo
     (\<lambda>r. Rejected (AxiosError
             (Some \<lparr>status = 404, data = Obj [(''message'', Str ''Unknown Message'')]\<rparr>)
             ''Request failed with status code 404''))
     ''MTIzNDU2Nzg5MDEy.AAAA'') = Returned Null
   \<and> \<not> truthy (error_retry_after (AxiosError
             (Some \<lparr>status = 404, data = Obj [(''message'', Str ''Unknown Message'')]\<rparr>)
             ''Request failed with status code 404''))
   \<and> fst (sendMessage \<lparr>to_text = (\<lambda>v. []), gt_zero = (\<lambda>v. False)\<rparr>
     (\<lambda>r. Rejected (AxiosError
             (Some \<lparr>status = 404, data = Obj [(''message'', Str ''Unknown Message'')]\<rparr>)
             ''Request failed with status code 404''))
     ''1100'' ''hello'' ''MTIzNDU2Nzg5MDEy.AAAA'' (Some ''9000'')) = Returned Null
   \<and> fst (sendMessage \<lparr>to_text = (\<lambda>v. []), gt_zero = (\<lambda>v. False)\<rparr>
     (\<lambda>r. Resolved \<lparr>status = 200, data = Obj [(''id'', Str ''9001'')]\<rparr>)
     ''1100'' ''hello'' ''MTIzNDU2Nzg5MDEy.AAAA'' (Some ''9000''))
     = Returned (Obj [(''id'', Str ''9001'')])"
  using api_client_never_throws
    [where axios = "\<lambda>r. Rejected (AxiosError
             (Some \<lparr>status = 404, data = Obj [(''message'', Str ''Unknown Message'')]\<rparr>)
             ''Request failed with status code 404'')"
       and eng = "\<lparr>to_text = (\<lambda>v. []), gt_zero = (\<lambda>v. False)\<rparr>"
       and channelId = "''1100''" and messageId = "''9000''"
       and content = "''hello''" and replyToMessageId = "Some ''9000''"
       and token = "''MTIzNDU2Nzg5MDEy.AAAA''"]
    api_client_never_throws
    [where axios = "\<lambda>r. Resolved \<lparr>status = 200, data = Obj [(''id'', Str ''9001'')]\<rparr>"
       and eng = "\<lparr>to_text = (\<lambda>v. []), gt_zero = (\<lambda>v. False)\<rparr>"
       and channelId = "''1100''" and content = "''hello''" and replyToMessageId = "Some ''9000''"
       and token = "''MTIzNDU2Nzg5MDEy.AAAA''"]
  by (simp add: error_detail_def js_or_def error_retry_after_def)

text \<open>
  The claim as stated fails: on a rejection with status 429 \<open>generateGeminiReply\<close>
  returns the string \<open>RATE_LIMITED\<close>, which is not \<open>null\<close>. And \<open>sendMessage\<close>
  does raise to its caller when the rejection carries a \<open>retry_after\<close> that is an
  object with a \<open>toString\<close> property of its own: the template literal of the warning
  throws inside the \<open>catch\<close> block.
\<close>

theorem rate_limit_failure_returns_sentinel:
  "fst (generateGeminiReply \<lparr>to_text = (\<lambda>v. ''5''), gt_zero = (\<lambda>v. False)\<rparr>
         (\<lambda>r. Rejected (AxiosError
                 (Some \<lparr>status = 429,
                        data = Obj [(''error'', Obj [(''code'', Num 429),
                                                    (''status'', Str ''RESOURCE_EXHAUSTED'')])]\<rparr>)
                 ''Request failed with status code 429''))
         ''hello'' ''AIzaSyA-first-key-0001'' (Some ''en''))
   = Returned (Str ''RATE_LIMITED'')
   \<and> Str ''RATE_LIMITED'' \<noteq> Null
   \<and> fst (sendMessage \<lparr>to_text = (\<lambda>v. ''5''), gt_zero = (\<lambda>v. False)\<rparr>
         (\<lambda>r. Rejected (AxiosError
                 (Some \<lparr>status = 429,
                        data = Obj [(''retry_after'', Obj [(''toString'', Num 1)])]\<rparr>)
                 ''Request failed with status code 429''))
         ''1100'' ''hello'' ''MTIzNDU2Nzg5MDEy.AAAA'' None)
   = Thrown (TypeError ''Cannot convert object to primitive value'')"
  by (simp add: generateGeminiReply_rejected rate_limited_error_def sendMessage_rejected_value
      error_retry_after_def not_primitive_def)

end
